theory Spec2Isabelle
  imports Complex_Main
begin

section \<open>Python string operations used by the parser\<close>

text \<open>
  Python strings are modelled as \<open>string\<close> (lists of characters); the files are decoded as
  ISO-8859-1, one character per byte.  The receiver of a method is the first argument:
  \<open>s.startswith(p)\<close> is \<open>startswith s p\<close>.
\<close>

definition startswith :: "string \<Rightarrow> string \<Rightarrow> bool" where
  "startswith s pre = (take (length pre) s = pre)"

definition endswith :: "string \<Rightarrow> string \<Rightarrow> bool" where
  "endswith s suf = (length suf \<le> length s \<and> drop (length s - length suf) s = suf)"

text \<open>
  \<open>s.replace(old, new)\<close>: every non-overlapping occurrence of \<open>old\<close>, scanning from the left.
\<close>

fun replace :: "string \<Rightarrow> string \<Rightarrow> string \<Rightarrow> string" where
  "replace [] old new = (if old = [] then new else [])"
| "replace (c # cs) old new =
     (if old = [] then new @ c # replace cs old new
      else if startswith (c # cs) old then new @ replace (drop (length old - 1) cs) old new
      else c # replace cs old new)"

text \<open>
  \<open>s.split(sep)\<close> for a non-empty separator (the parser only passes literals): the pieces
  between the non-overlapping occurrences of \<open>sep\<close>, scanning from the left.
\<close>

fun split_on :: "string \<Rightarrow> string \<Rightarrow> string list" where
  "split_on [] sep = [[]]"
| "split_on (c # cs) sep =
     (if startswith (c # cs) sep then [] # split_on (drop (length sep - 1) cs) sep
      else (case split_on cs sep of [] \<Rightarrow> [[c]] | w # ws \<Rightarrow> (c # w) # ws))"

text \<open>\<open>os.path.basename\<close> (POSIX): what follows the last slash.\<close>

definition basename :: "string \<Rightarrow> string" where
  "basename p = rev (takeWhile (\<lambda>c. c \<noteq> CHR ''/'') (rev p))"

text \<open>Decimal formatting of integers, as \<open>f"{i}"\<close> does.\<close>

definition digit_char :: "nat \<Rightarrow> char" where
  "digit_char d = ''0123456789'' ! d"

fun str_nat :: "nat \<Rightarrow> string" where
  "str_nat n = (if n < 10 then [digit_char n] else str_nat (n div 10) @ [digit_char (n mod 10)])"

declare str_nat.simps [simp del]

definition str_int :: "int \<Rightarrow> string" where
  "str_int i = (if i < 0 then CHR ''-'' # str_nat (nat (- i)) else str_nat (nat i))"

section \<open>Exceptions and the environment of a parse\<close>

text \<open>
  Modelled from the spec: the Field Extractor (\<open>pylabrobot.utils.file_parsing\<close>) is not part
  of the sources at hand.  It fails with a key-not-found condition when the key is absent and
  with a type-conversion condition when the value cannot be parsed as the requested type;
  callers catch both as \<open>ValueError\<close>.  A string value needs no conversion.
\<close>

datatype extract_failure = KeyNotFound | TypeConversion

datatype error =
    ValueError string
  | ExtractError extract_failure string
  | KeyError string
  | IndexError
  | UnboundLocalError string
  | FileNotFoundError string

text \<open>\<open>except ValueError\<close> catches the extractor's failures and plain value errors.\<close>

fun is_ValueError :: "error \<Rightarrow> bool" where
  "is_ValueError (ValueError _) = True"
| "is_ValueError (ExtractError _ _) = True"
| "is_ValueError _ = False"

text \<open>
  The environment of a call: the file system (path to decoded content of a readable file),
  the raw typed lookups of the Field Extractor (key, then text), the text that an
  f-string produces for a float, and Python's built-in \<open>int\<close> on a string (\<open>None\<close> is its
  \<open>ValueError\<close>).  Python floats are idealised as real numbers.
\<close>

record env =
  files :: "string \<rightharpoonup> string"
  lookup_int :: "string \<Rightarrow> string \<Rightarrow> extract_failure + int"
  lookup_float :: "string \<Rightarrow> string \<Rightarrow> extract_failure + real"
  lookup_string :: "string \<Rightarrow> string \<Rightarrow> string option"
  str_float :: "real \<Rightarrow> string"
  parse_int :: "string \<Rightarrow> int option"

definition find_int :: "env \<Rightarrow> string \<Rightarrow> string \<Rightarrow> error + int" where
  "find_int e key c =
     (case lookup_int e key c of Inl f \<Rightarrow> Inl (ExtractError f key) | Inr v \<Rightarrow> Inr v)"

definition find_float :: "env \<Rightarrow> string \<Rightarrow> string \<Rightarrow> error + real" where
  "find_float e key c =
     (case lookup_float e key c of Inl f \<Rightarrow> Inl (ExtractError f key) | Inr v \<Rightarrow> Inr v)"

definition find_string :: "env \<Rightarrow> string \<Rightarrow> string \<Rightarrow> error + string" where
  "find_string e key c =
     (case lookup_string e key c of None \<Rightarrow> Inl (ExtractError KeyNotFound key) | Some v \<Rightarrow> Inr v)"

text \<open>\<open>open(path).read()\<close>.\<close>

definition read_file :: "env \<Rightarrow> string \<Rightarrow> error + string" where
  "read_file e path = (case files e path of None \<Rightarrow> Inl (FileNotFoundError path) | Some c \<Rightarrow> Inr c)"

text \<open>Sequencing of statements that may raise: the first exception ends the call.\<close>

definition bind :: "error + 'a \<Rightarrow> ('a \<Rightarrow> error + 'b) \<Rightarrow> error + 'b" where
  "bind m f = (case m of Inl err \<Rightarrow> Inl err | Inr v \<Rightarrow> f v)"

section \<open>The Resource Classifier\<close>

definition get_resource_type :: "env \<Rightarrow> string \<Rightarrow> error + string" where
  "get_resource_type e filepath =
     (let filename = basename filepath in
      if startswith filename ''PLT_CAR_'' then Inr ''PlateCarrier''
      else if startswith filename ''TIP_CAR_'' then Inr ''TipCarrier''
      else if startswith filename ''MFX_CAR_'' then Inr ''MFXCarrier''
      else if startswith filename ''SMP_CAR_'' then Inl (ValueError ''SMP_CAR_ not supported yet'')
      else
        let filepath1 = (if endswith filepath ''_L.rck''
                         then replace filepath ''_L.rck'' ''.rck'' else filepath);
            filepath2 = (if endswith filename ''_P.rck''
                         then replace filepath1 ''_P.rck'' ''.rck'' else filepath1)
        in case files e filepath2 of
             None \<Rightarrow> Inr ''TipRack''
           | Some c \<Rightarrow>
               (case (case find_int e ''Category.0.Id'' c of
                        Inr category0id \<Rightarrow>
                          if 170 \<le> category0id \<and> category0id < 180 then Inr (Some ''TipRack'')
                          else if 1000 \<le> category0id \<and> category0id < 1100 then Inr (Some ''Plate'')
                          else Inr None
                      | Inl err \<Rightarrow> if is_ValueError err then Inr None else Inl err) of
                  Inl err \<Rightarrow> Inl err
                | Inr (Some r) \<Rightarrow> Inr r
                | Inr None \<Rightarrow>
                    (case find_string e ''Cntr.1.file'' c of
                       Inr _ \<Rightarrow> Inr ''Plate''
                     | Inl err \<Rightarrow>
                         if is_ValueError err
                         then Inl (ValueError (''Unknown resource type for file '' @ filename))
                         else Inl err)))"


section \<open>Numbers\<close>

text \<open>
  \<open>round(x, ndigits)\<close> on the idealised floats: to the nearest multiple of
  \<open>10 ^ - ndigits\<close>, ties to even.
\<close>

definition round_half_even :: "real \<Rightarrow> int" where
  "round_half_even v =
     (let f = \<lfloor>v\<rfloor>; d = v - of_int f
      in if d < 1 / 2 then f else if 1 / 2 < d then f + 1 else if even f then f else f + 1)"

definition py_round :: "real \<Rightarrow> nat \<Rightarrow> real" where
  "py_round v ndigits = of_int (round_half_even (v * 10 ^ ndigits)) / 10 ^ ndigits"

text \<open>
  \<open>height_so_far\<close> starts as the integer \<open>0\<close> and becomes a float with the first addition.
\<close>

datatype pynum = PyInt int | PyFloat real

fun num_value :: "pynum \<Rightarrow> real" where
  "num_value (PyInt i) = of_int i"
| "num_value (PyFloat v) = v"

definition add_float :: "pynum \<Rightarrow> real \<Rightarrow> pynum" where
  "add_float n v = PyFloat (num_value n + v)"

fun str_num :: "env \<Rightarrow> pynum \<Rightarrow> string" where
  "str_num e (PyInt i) = str_int i"
| "str_num e (PyFloat v) = str_float e v"

section \<open>Resource descriptors\<close>

text \<open>
  Modelled from the spec: the resource classes (\<open>Plate\<close>, \<open>TipRack\<close>, the carriers,
  \<open>Coordinate\<close>), the tip creators and \<open>create_equally_spaced_2d\<close> are not part of the
  sources at hand.  They are external data sinks with known constructors: a descriptor is
  the record of the arguments that the parser passes to the constructor, the item grid the
  record of the arguments of \<open>create_equally_spaced_2d\<close>, and a tip creator a name.
\<close>

datatype WellBottomType = Bottom_FLAT | Bottom_V | Bottom_U | Bottom_UNKNOWN

datatype CrossSectionType = Section_CIRCLE | Section_RECTANGLE

record well_items =
  w_num_items_x :: int
  w_num_items_y :: int
  w_dx :: real
  w_dy :: real
  w_dz :: real
  w_item_dx :: real
  w_item_dy :: real
  w_size_x :: real
  w_size_y :: real
  w_size_z :: real
  w_bottom_type :: WellBottomType
  w_cross_section_type :: CrossSectionType

record plate =
  plate_name :: string
  plate_size_x :: real
  plate_size_y :: real
  plate_size_z :: real
  plate_num_items_x :: int
  plate_num_items_y :: int
  plate_items :: well_items
  plate_lid_height :: int
  plate_model :: string

datatype tip_creator =
    four_ml_tip_with_filter
  | five_ml_tip_with_filter
  | low_volume_tip_no_filter
  | low_volume_tip_with_filter
  | high_volume_tip_with_filter
  | high_volume_tip_no_filter
  | five_ml_tip
  | standard_volume_tip_with_filter
  | standard_volume_tip_no_filter

record tip_items =
  t_num_items_x :: int
  t_num_items_y :: int
  t_dx :: real
  t_dy :: real
  t_dz :: real
  t_item_dx :: real
  t_item_dy :: real
  t_size_x :: real
  t_size_y :: real
  t_size_z :: real
  t_make_tip :: tip_creator

record tip_rack =
  rack_name :: string
  rack_size_x :: real
  rack_size_y :: real
  rack_size_z :: real
  rack_items :: tip_items
  rack_model :: string

datatype coordinate = Coordinate (coord_x: real) (coord_y: real) (coord_z: real)

record carrier_site =
  site_location :: coordinate
  site_size_x :: real
  site_size_y :: real

datatype carrier_class = PlateCarrier | TipCarrier | MFXCarrier

record carrier =
  carrier_class :: carrier_class
  carrier_name :: string
  carrier_size_x :: real
  carrier_size_y :: real
  carrier_size_z :: real
  carrier_sites :: "carrier_site list"
  carrier_model :: string

text \<open>
  Modelled from the spec: \<open>create_homogeneous_carrier_sites\<close> is not part of the sources at
  hand; it builds one \<open>CarrierSite\<close> per location, all of the one given width and height.
\<close>

definition create_homogeneous_carrier_sites ::
    "coordinate list \<Rightarrow> real \<Rightarrow> real \<Rightarrow> carrier_site list" where
  "create_homogeneous_carrier_sites locations sx sy =
     map (\<lambda>l. \<lparr>site_location = l, site_size_x = sx, site_size_y = sy\<rparr>) locations"

section \<open>Plates\<close>

definition newline :: string where
  "newline = [CHR 0x0A]"

definition dquote :: string where
  "dquote = [CHR 0x22]"

text \<open>
  The body of the loop \<open>for i in range(num_segments, 0, -1)\<close>, over the list of the indices
  still to visit; the state is \<open>(vol_eqn_func, height_so_far)\<close>.
\<close>

fun vol_eqn_loop ::
    "env \<Rightarrow> string \<Rightarrow> int \<Rightarrow> int list \<Rightarrow> string \<times> pynum \<Rightarrow> error + string \<times> pynum" where
  "vol_eqn_loop e c2 num_segments [] st = Inr st"
| "vol_eqn_loop e c2 num_segments (i # rest) st =
     (case find_string e (str_int i @ ''.EqnOfVol'') c2 of
        Inl err \<Rightarrow> Inl err
      | Inr vol_eqn \<Rightarrow>
     (case find_float e (str_int i @ ''.Max'') c2 of
        Inl err \<Rightarrow> Inl err
      | Inr section_max_height \<Rightarrow>
          vol_eqn_loop e c2 num_segments rest
            (if i = num_segments
             then fst st @ ''volume = ''
                    @ replace vol_eqn ''h'' (''min(h, '' @ str_float e section_max_height @ '')'')
                    @ newline
             else fst st @ ''if h <= '' @ str_float e section_max_height @ '':'' @ newline
                    @ ''  volume += ''
                    @ replace vol_eqn ''h'' (''(h-'' @ str_num e (snd st) @ '')'')
                    @ newline,
             add_float (snd st) section_max_height)))"

definition rck2ctr :: "string \<Rightarrow> string" where
  "rck2ctr fn =
     replace (replace (replace (replace fn ''_P.rck'' ''.ctr'') ''_L.rck'' ''.ctr'')
       ''.rck'' ''.ctr'') ''ProtCryst'' ''Post''"

definition well_bottom_type_of :: "int \<Rightarrow> WellBottomType" where
  "well_bottom_type_of code =
     (if code = 0 then Bottom_FLAT
      else if code = 1 then Bottom_FLAT
      else if code = 3 then Bottom_V
      else if code = 4 then Bottom_U
      else if code = 5 then Bottom_V
      else Bottom_UNKNOWN)"

definition cross_section_type_of :: "int \<Rightarrow> CrossSectionType" where
  "cross_section_type_of code =
     (if code = 0 then Section_CIRCLE
      else if code = 1 then Section_RECTANGLE
      else Section_CIRCLE)"

definition create_plate_for_writing ::
    "env \<Rightarrow> string \<Rightarrow> string option \<Rightarrow> error + plate \<times> string \<times> string" where
  "create_plate_for_writing e filepath ctr_filepath =
     bind (read_file e filepath) (\<lambda>c.
     bind (find_float e ''Dim.Dx'' c) (\<lambda>size_x.
     bind (find_float e ''Dim.Dy'' c) (\<lambda>size_y.
     bind (find_float e ''Dim.Dz'' c) (\<lambda>size_z.
     bind (find_int e ''Columns'' c) (\<lambda>num_items_x.
     bind (find_int e ''Rows'' c) (\<lambda>num_items_y.
     bind (find_float e ''Dx'' c) (\<lambda>well_dx.
     bind (find_float e ''Dy'' c) (\<lambda>well_dy0.
     bind (find_float e ''BndryX'' c) (\<lambda>bndry_x.
     let dx = py_round (bndry_x - well_dx / 2) 4 in
     bind (find_float e ''BndryY'' c) (\<lambda>bndry_y.
     let dy = py_round (bndry_y - well_dy0 / 2) 4;
         filename = basename filepath;
         cname = hd (split_on filename ''.'');
         description = cname;
         well_dy = (if cname = ''Cos_96_ProtCryst'' \<and> well_dy0 = 4.5 then 9.0 else well_dy0);
         ctr_path = (case ctr_filepath of
                       None \<Rightarrow> rck2ctr filepath
                     | Some p \<Rightarrow> if p = [] then rck2ctr filepath else p) in
     bind (read_file e ctr_path) (\<lambda>c2.
     bind (find_int e ''Segments'' c2) (\<lambda>num_segments.
     bind (vol_eqn_loop e c2 num_segments (rev [1..num_segments]) ([], PyInt 0)) (\<lambda>st.
     let vol_eqn_func =
           fst st @ ''if h > '' @ str_num e (snd st) @ '':'' @ newline
             @ ''  raise ValueError(f'' @ dquote @ ''Height {h} is too large for '' @ cname
             @ dquote @ '')'' @ newline
             @ ''return volume'' in
     bind (find_float e ''Dim.Dx'' c2) (\<lambda>well_size_x.
     bind (find_float e ''Dim.Dy'' c2) (\<lambda>well_size_y.
     bind (find_int e (str_int num_segments @ ''.Shape'') c2) (\<lambda>well_bottom_type_code.
     bind (find_int e ''1.Shape'' c2) (\<lambda>cross_section_type_code.
     bind (find_float e ''Depth'' c2) (\<lambda>well_size_z.
     bind (case find_float e ''BaseMM'' c2 of
             Inr v \<Rightarrow> Inr v
           | Inl err \<Rightarrow> if is_ValueError err then Inr 0 else Inl err) (\<lambda>dz.
     Inr (\<lparr>plate_name = cname,
           plate_size_x = size_x,
           plate_size_y = size_y,
           plate_size_z = size_z,
           plate_num_items_x = num_items_x,
           plate_num_items_y = num_items_y,
           plate_items =
             \<lparr>w_num_items_x = num_items_x,
              w_num_items_y = num_items_y,
              w_dx = dx + (well_dx - well_size_x) / 2,
              w_dy = dy + (well_dy - well_size_y) / 2,
              w_dz = dz,
              w_item_dx = well_dx,
              w_item_dy = well_dy,
              w_size_x = well_size_x,
              w_size_y = well_size_y,
              w_size_z = well_size_z,
              w_bottom_type = well_bottom_type_of well_bottom_type_code,
              w_cross_section_type = cross_section_type_of cross_section_type_code\<rparr>,
           plate_lid_height = 10,
           plate_model = cname\<rparr>,
          description, vol_eqn_func))))))))))))))))))))"

section \<open>Tip racks\<close>

definition tip_table :: "string \<rightharpoonup> tip_creator" where
  "tip_table = map_of
     [(''MlStar4mlTipWithFilter'', four_ml_tip_with_filter),
      (''MlStar5mlTipWithFilter'', five_ml_tip_with_filter),
      (''MlStar10ulLowVolumeTip'', low_volume_tip_no_filter),
      (''MlStar10ulLowVolumeTipWithFilter'', low_volume_tip_with_filter),
      (''MlStar1000ulHighVolumeTipWithFilter'', high_volume_tip_with_filter),
      (''MlStar1000ulHighVolumeTip'', high_volume_tip_no_filter),
      (''MlStar5mlTip'', five_ml_tip),
      (''MlStar300ulStandardVolumeTipWithFilter'', standard_volume_tip_with_filter),
      (''MlStar300ulStandardVolumeTip'', standard_volume_tip_no_filter)]"

text \<open>
  The statements \<open>try: tip_type = find_string("PropertyValue.6", c)\<close>
  \<open>except ValueError: tip_type = find_string("PropertyValue.4", c)\<close>.
\<close>

definition read_tip_type :: "env \<Rightarrow> string \<Rightarrow> error + string" where
  "read_tip_type e c =
     (case find_string e ''PropertyValue.6'' c of
        Inr tip_type \<Rightarrow> Inr tip_type
      | Inl err \<Rightarrow> if is_ValueError err then find_string e ''PropertyValue.4'' c else Inl err)"

text \<open>The renaming of a stem that starts with the digit 4 or 5; \<open>cname[0]\<close> raises on the empty stem.\<close>

definition rack_cname :: "string \<Rightarrow> error + string" where
  "rack_cname cname =
     (case cname of
        [] \<Rightarrow> Inl IndexError
      | ch # rest \<Rightarrow>
          if ch = CHR ''4'' then Inr (''Four'' @ rest)
          else if ch = CHR ''5'' then Inr (''Five'' @ rest)
          else Inr cname)"

definition create_tip_rack_for_writing :: "env \<Rightarrow> string \<Rightarrow> error + tip_rack \<times> string" where
  "create_tip_rack_for_writing e filepath =
     bind (read_file e filepath) (\<lambda>c.
     bind (find_float e ''Dim.Dx'' c) (\<lambda>size_x.
     bind (find_float e ''Dim.Dy'' c) (\<lambda>size_y.
     bind (find_float e ''Dim.Dz'' c) (\<lambda>size_z.
     bind (read_tip_type e c) (\<lambda>tip_type.
     bind (case tip_table tip_type of
             None \<Rightarrow> Inl (KeyError tip_type)
           | Some creator \<Rightarrow> Inr creator) (\<lambda>tip_creator.
     bind (find_float e ''Dx'' c) (\<lambda>tip_size_x.
     bind (find_float e ''Dy'' c) (\<lambda>tip_size_y.
     bind (find_float e ''BndryX'' c) (\<lambda>bndry_x.
     let dx = py_round (bndry_x - tip_size_x / 2) 4 in
     bind (find_float e ''BndryY'' c) (\<lambda>bndry_y.
     let dy = py_round (bndry_y - tip_size_y / 2) 4 in
     bind (find_float e ''Cntr.1.base'' c) (\<lambda>dz.
     bind (find_int e ''Columns'' c) (\<lambda>num_items_x.
     bind (find_int e ''Rows'' c) (\<lambda>num_items_y.
     bind (rack_cname (hd (split_on (basename filepath) ''.''))) (\<lambda>cname.
     bind (find_string e ''Description'' c) (\<lambda>description.
     Inr (\<lparr>rack_name = cname,
           rack_size_x = size_x,
           rack_size_y = size_y,
           rack_size_z = size_z,
           rack_items =
             \<lparr>t_num_items_x = num_items_x,
              t_num_items_y = num_items_y,
              t_dx = dx,
              t_dy = dy,
              t_dz = dz,
              t_item_dx = tip_size_x,
              t_item_dy = tip_size_y,
              t_size_x = tip_size_x,
              t_size_y = tip_size_y,
              t_size_z = size_z,
              t_make_tip = tip_creator\<rparr>,
           rack_model = cname\<rparr>,
          description))))))))))))))))"

section \<open>Carriers\<close>

text \<open>
  \<open>int(c.split(marker)[1].split("\x08")[0])\<close>: the marker is \<open>Site.Cnt\<close> followed by the
  byte 1 (plate and tip carriers) or 2 (multi-function carriers).
\<close>

definition read_site_count :: "env \<Rightarrow> string \<Rightarrow> string \<Rightarrow> error + int" where
  "read_site_count e c marker =
     (case split_on c marker of
        _ # part # _ \<Rightarrow>
          (case parse_int e (hd (split_on part [CHR 0x08])) of
             None \<Rightarrow> Inl (ValueError ''invalid literal for int()'')
           | Some n \<Rightarrow> Inr n)
      | _ \<Rightarrow> Inl IndexError)"

text \<open>
  The loop \<open>for i in range(1, site_count+1)\<close>, over the list of the indices still to visit.
  The state is \<open>sites\<close> and the loop variables \<open>site_width\<close> and \<open>site_height\<close>, which are
  unbound until the first iteration has assigned them.
\<close>

record site_state =
  sites :: "coordinate list"
  site_width :: "real option"
  site_height :: "real option"

fun read_sites :: "env \<Rightarrow> string \<Rightarrow> int list \<Rightarrow> site_state \<Rightarrow> error + site_state" where
  "read_sites e c [] st = Inr st"
| "read_sites e c (i # rest) st =
     (case find_float e (''Site.'' @ str_int i @ ''.X'') c of Inl err \<Rightarrow> Inl err | Inr sx \<Rightarrow>
     (case find_float e (''Site.'' @ str_int i @ ''.Y'') c of Inl err \<Rightarrow> Inl err | Inr sy \<Rightarrow>
     (case find_float e (''Site.'' @ str_int i @ ''.Z'') c of Inl err \<Rightarrow> Inl err | Inr sz \<Rightarrow>
     (case find_float e (''Site.'' @ str_int i @ ''.Dx'') c of Inl err \<Rightarrow> Inl err | Inr w \<Rightarrow>
     (case find_float e (''Site.'' @ str_int i @ ''.Dy'') c of Inl err \<Rightarrow> Inl err | Inr h \<Rightarrow>
        read_sites e c rest
          \<lparr>sites = sites st @ [Coordinate sx sy sz],
           site_width = Some w, site_height = Some h\<rparr>)))))"

definition initial_sites :: site_state where
  "initial_sites = \<lparr>sites = [], site_width = None, site_height = None\<rparr>"

text \<open>Reading a local variable that no iteration has assigned.\<close>

definition local_var :: "string \<Rightarrow> 'a option \<Rightarrow> error + 'a" where
  "local_var name v = (case v of None \<Rightarrow> Inl (UnboundLocalError name) | Some a \<Rightarrow> Inr a)"

text \<open>
  The filter \<open>[s for i, s in enumerate(sites) if find_int(f"Site.{i}.Visible", c) == 1]\<close>,
  with \<open>i\<close> the position of the next element, counted from 0.
\<close>

fun filter_visible :: "env \<Rightarrow> string \<Rightarrow> int \<Rightarrow> coordinate list \<Rightarrow> error + coordinate list" where
  "filter_visible e c i [] = Inr []"
| "filter_visible e c i (s # rest) =
     (case find_int e (''Site.'' @ str_int i @ ''.Visible'') c of
        Inl err \<Rightarrow> Inl err
      | Inr visible \<Rightarrow>
          (case filter_visible e c (i + 1) rest of
             Inl err \<Rightarrow> Inl err
           | Inr kept \<Rightarrow> Inr (if visible = 1 then s # kept else kept)))"

text \<open>
  The part that the three carrier parsers share after their site list is final: the
  dimensions, the description, the name, and the call of the constructor.
\<close>

definition assemble_carrier ::
    "env \<Rightarrow> carrier_class \<Rightarrow> string \<Rightarrow> string \<Rightarrow> coordinate list \<Rightarrow> site_state
       \<Rightarrow> error + carrier \<times> string" where
  "assemble_carrier e klass filepath c locations st =
     bind (find_float e ''Dim.Dx'' c) (\<lambda>size_x.
     bind (find_float e ''Dim.Dy'' c) (\<lambda>size_y.
     bind (find_float e ''Dim.Dz'' c) (\<lambda>size_z.
     bind (find_string e ''Description'' c) (\<lambda>description.
     let cname = hd (split_on (basename filepath) ''.'') in
     bind (local_var ''site_width'' (site_width st)) (\<lambda>width.
     bind (local_var ''site_height'' (site_height st)) (\<lambda>height.
     Inr (\<lparr>carrier_class = klass,
           carrier_name = cname,
           carrier_size_x = size_x,
           carrier_size_y = size_y,
           carrier_size_z = size_z,
           carrier_sites = create_homogeneous_carrier_sites locations width height,
           carrier_model = cname\<rparr>,
          description)))))))"

definition create_plate_carrier_for_writing :: "env \<Rightarrow> string \<Rightarrow> error + carrier \<times> string" where
  "create_plate_carrier_for_writing e filepath =
     bind (read_file e filepath) (\<lambda>c.
     bind (read_site_count e c (''Site.Cnt'' @ [CHR 0x01])) (\<lambda>site_count.
     bind (read_sites e c [1..site_count] initial_sites) (\<lambda>st.
     assemble_carrier e PlateCarrier filepath c (sort_key coord_y (sites st)) st)))"

definition create_tip_carrier_for_writing :: "env \<Rightarrow> string \<Rightarrow> error + carrier \<times> string" where
  "create_tip_carrier_for_writing e filepath =
     bind (read_file e filepath) (\<lambda>c.
     bind (read_site_count e c (''Site.Cnt'' @ [CHR 0x01])) (\<lambda>site_count.
     bind (read_sites e c [1..site_count] initial_sites) (\<lambda>st.
     assemble_carrier e TipCarrier filepath c (sort_key coord_y (sites st)) st)))"

definition create_flex_carrier_for_writing :: "env \<Rightarrow> string \<Rightarrow> error + carrier \<times> string" where
  "create_flex_carrier_for_writing e filepath =
     bind (read_file e filepath) (\<lambda>c.
     bind (read_site_count e c (''Site.Cnt'' @ [CHR 0x02])) (\<lambda>site_count.
     bind (read_sites e c [1..site_count] initial_sites) (\<lambda>st.
     bind (filter_visible e c 0 (sort_key coord_y (sites st))) (\<lambda>visible_sites.
     assemble_carrier e MFXCarrier filepath c visible_sites st))))"

section \<open>The public entry points\<close>

definition create_plate :: "env \<Rightarrow> string \<Rightarrow> string \<Rightarrow> string option \<Rightarrow> error + plate" where
  "create_plate e filepath name ctr_filepath =
     bind (create_plate_for_writing e filepath ctr_filepath) (\<lambda>(p, _, _).
     Inr (p\<lparr>plate_name := name\<rparr>))"

definition create_tip_rack :: "env \<Rightarrow> string \<Rightarrow> string \<Rightarrow> error + tip_rack" where
  "create_tip_rack e filepath name =
     bind (create_tip_rack_for_writing e filepath) (\<lambda>(r, _).
     Inr (r\<lparr>rack_name := name\<rparr>))"

definition create_plate_carrier :: "env \<Rightarrow> string \<Rightarrow> string \<Rightarrow> error + carrier" where
  "create_plate_carrier e filepath name =
     bind (create_plate_carrier_for_writing e filepath) (\<lambda>(k, _).
     Inr (k\<lparr>carrier_name := name\<rparr>))"

definition create_tip_carrier :: "env \<Rightarrow> string \<Rightarrow> string \<Rightarrow> error + carrier" where
  "create_tip_carrier e filepath name =
     bind (create_tip_carrier_for_writing e filepath) (\<lambda>(k, _).
     Inr (k\<lparr>carrier_name := name\<rparr>))"

definition create_flex_carrier :: "env \<Rightarrow> string \<Rightarrow> string \<Rightarrow> error + carrier" where
  "create_flex_carrier e filepath name =
     bind (create_flex_carrier_for_writing e filepath) (\<lambda>(k, _).
     Inr (k\<lparr>carrier_name := name\<rparr>))"

section \<open>The statements of the specification\<close>

text \<open>The four carrier prefixes of a file name.\<close>

definition carrier_prefixed :: "string \<Rightarrow> bool" where
  "carrier_prefixed filename =
     (startswith filename ''PLT_CAR_'' \<or> startswith filename ''TIP_CAR_''
      \<or> startswith filename ''MFX_CAR_'' \<or> startswith filename ''SMP_CAR_'')"

text \<open>The path that the classifier inspects: the orientation-normalised path.\<close>

definition canonical_path :: "string \<Rightarrow> string" where
  "canonical_path filepath =
     (let filepath1 = (if endswith filepath ''_L.rck''
                       then replace filepath ''_L.rck'' ''.rck'' else filepath)
      in if endswith (basename filepath) ''_P.rck''
         then replace filepath1 ''_P.rck'' ''.rck'' else filepath1)"

text \<open>The text \<open>pat\<close> occurs somewhere in \<open>s\<close>.\<close>

fun occurs :: "string \<Rightarrow> string \<Rightarrow> bool" where
  "occurs [] pat = (pat = [])"
| "occurs (c # cs) pat = (startswith (c # cs) pat \<or> occurs cs pat)"

text \<open>The category-identifier field is present and lies in \<open>lo..hi\<close>.\<close>

definition category_in :: "env \<Rightarrow> string \<Rightarrow> int \<Rightarrow> int \<Rightarrow> bool" where
  "category_in e c lo hi =
     (case lookup_int e ''Category.0.Id'' c of Inl _ \<Rightarrow> False | Inr v \<Rightarrow> lo \<le> v \<and> v \<le> hi)"

text \<open>The stem of a file path: the base name up to its first dot.\<close>

definition stem :: "string \<Rightarrow> string" where
  "stem filepath = hd (split_on (basename filepath) ''.'')"

text \<open>The path of the companion well-definition file of a plate.\<close>

definition ctr_path_of :: "string \<Rightarrow> string option \<Rightarrow> string" where
  "ctr_path_of filepath ctr_filepath =
     (case ctr_filepath of
        None \<Rightarrow> rck2ctr filepath
      | Some p \<Rightarrow> if p = [] then rck2ctr filepath else p)"

text \<open>
  The volume function as the specification describes it, for the segments
  \<open>segs = [(eqn 1, max 1), \<dots>, (eqn N, max N)]\<close>, index 1 the top one.  The height below
  segment \<open>i\<close> is the sum of the maxima of the segments \<open>i + 1, \<dots>, N\<close>, added from the bottom.
\<close>

definition height_below :: "(string \<times> real) list \<Rightarrow> nat \<Rightarrow> pynum" where
  "height_below segs i = foldl add_float (PyInt 0) (map snd (rev (drop i segs)))"

text \<open>Every occurrence of the variable \<open>h\<close> in an equation replaced by the text \<open>t\<close>.\<close>

definition substitute_h :: "string \<Rightarrow> string \<Rightarrow> string" where
  "substitute_h t eqn = concat (map (\<lambda>ch. if ch = CHR ''h'' then t else [ch]) eqn)"

definition base_term :: "env \<Rightarrow> string \<times> real \<Rightarrow> string" where
  "base_term e seg =
     ''volume = '' @ substitute_h (''min(h, '' @ str_float e (snd seg) @ '')'') (fst seg) @ newline"

definition conditional_term :: "env \<Rightarrow> (string \<times> real) list \<Rightarrow> nat \<Rightarrow> string" where
  "conditional_term e segs i =
     ''if h <= '' @ str_float e (snd (segs ! (i - 1))) @ '':'' @ newline
       @ ''  volume += ''
       @ substitute_h (''(h-'' @ str_num e (height_below segs i) @ '')'') (fst (segs ! (i - 1)))
       @ newline"

definition segment_term :: "env \<Rightarrow> (string \<times> real) list \<Rightarrow> nat \<Rightarrow> string" where
  "segment_term e segs i =
     (if i = length segs then base_term e (segs ! (i - 1)) else conditional_term e segs i)"

text \<open>The guard and the final line, over the height that the loop has accumulated.\<close>

definition range_guard_text :: "env \<Rightarrow> string \<Rightarrow> pynum \<Rightarrow> string" where
  "range_guard_text e cname height =
     ''if h > '' @ str_num e height @ '':'' @ newline
       @ ''  raise ValueError(f'' @ dquote @ ''Height {h} is too large for '' @ cname
       @ dquote @ '')'' @ newline
       @ ''return volume''"

definition volume_function :: "env \<Rightarrow> string \<Rightarrow> (string \<times> real) list \<Rightarrow> string" where
  "volume_function e cname segs =
     concat (map (segment_term e segs) (rev [1..<Suc (length segs)]))
       @ range_guard_text e cname (height_below segs 0)"

text \<open>The terms of the segments \<open>N, \<dots>, k + 1\<close>: what the loop has emitted when it reaches
  segment \<open>k\<close>.\<close>

definition emitted :: "env \<Rightarrow> (string \<times> real) list \<Rightarrow> nat \<Rightarrow> string" where
  "emitted e segs k = concat (map (segment_term e segs) (rev [Suc k..<Suc (length segs)]))"

text \<open>The segment records \<open>1, \<dots>, length segs\<close> of the text \<open>c2\<close> read as \<open>segs\<close>.\<close>

definition segments_read :: "env \<Rightarrow> string \<Rightarrow> (string \<times> real) list \<Rightarrow> bool" where
  "segments_read e c2 segs =
     (lookup_int e ''Segments'' c2 = Inr (int (length segs))
      \<and> (\<forall>i \<in> set [0..<length segs].
            lookup_string e (str_int (int (Suc i)) @ ''.EqnOfVol'') c2 = Some (fst (segs ! i))
            \<and> lookup_float e (str_int (int (Suc i)) @ ''.Max'') c2 = Inr (snd (segs ! i))))"

text \<open>
  The corner coordinate of one axis as the specification states it, and as the parser
  computes it: the rounded term uses the pitch as read, the border correction the pitch
  that is used for the placement of the items.
\<close>

definition stated_corner :: "real \<Rightarrow> real \<Rightarrow> real \<Rightarrow> real" where
  "stated_corner boundary item_size cell_pitch =
     py_round (boundary - item_size / 2) 4 + (cell_pitch - item_size) / 2"

definition computed_corner :: "real \<Rightarrow> real \<Rightarrow> real \<Rightarrow> real \<Rightarrow> real" where
  "computed_corner boundary item_size pitch_read pitch_used =
     py_round (boundary - pitch_read / 2) 4 + (pitch_used - item_size) / 2"

text \<open>The nine tip types of the catalogue.\<close>

definition recognized_tip_types :: "string list" where
  "recognized_tip_types =
     [''MlStar4mlTipWithFilter'', ''MlStar5mlTipWithFilter'', ''MlStar10ulLowVolumeTip'',
      ''MlStar10ulLowVolumeTipWithFilter'', ''MlStar1000ulHighVolumeTipWithFilter'',
      ''MlStar1000ulHighVolumeTip'', ''MlStar5mlTip'',
      ''MlStar300ulStandardVolumeTipWithFilter'', ''MlStar300ulStandardVolumeTip'']"

text \<open>The three carrier parsers, by the class they build, and their site-count markers.\<close>

definition carrier_parser :: "carrier_class \<Rightarrow> env \<Rightarrow> string \<Rightarrow> error + carrier \<times> string" where
  "carrier_parser klass =
     (case klass of
        PlateCarrier \<Rightarrow> create_plate_carrier_for_writing
      | TipCarrier \<Rightarrow> create_tip_carrier_for_writing
      | MFXCarrier \<Rightarrow> create_flex_carrier_for_writing)"

definition count_marker :: "carrier_class \<Rightarrow> string" where
  "count_marker klass =
     (case klass of
        PlateCarrier \<Rightarrow> ''Site.Cnt'' @ [CHR 0x01]
      | TipCarrier \<Rightarrow> ''Site.Cnt'' @ [CHR 0x01]
      | MFXCarrier \<Rightarrow> ''Site.Cnt'' @ [CHR 0x02])"

text \<open>The step between the sorted site list and the assembly: the visibility filter for
  multi-function carriers, nothing for the others.\<close>

definition final_locations ::
    "carrier_class \<Rightarrow> env \<Rightarrow> string \<Rightarrow> coordinate list \<Rightarrow> error + coordinate list" where
  "final_locations klass e c sorted_sites =
     (case klass of
        MFXCarrier \<Rightarrow> filter_visible e c 0 sorted_sites
      | _ \<Rightarrow> Inr sorted_sites)"

definition site_key :: "int \<Rightarrow> string \<Rightarrow> string" where
  "site_key i field = ''Site.'' @ str_int i @ ''.'' @ field"

text \<open>The keys of the widths and heights of the sites before the last one, and the float
  keys whose values reach a carrier with \<open>n\<close> sites.\<close>

definition unused_size_keys :: "int \<Rightarrow> string list" where
  "unused_size_keys n =
     concat (map (\<lambda>i. [site_key i ''Dx'', site_key i ''Dy'']) [1..n - 1])"

definition used_float_keys :: "int \<Rightarrow> string list" where
  "used_float_keys n =
     concat (map (\<lambda>i. [site_key i ''X'', site_key i ''Y'', site_key i ''Z'']) [1..n])
       @ [site_key n ''Dx'', site_key n ''Dy'', ''Dim.Dx'', ''Dim.Dy'', ''Dim.Dz'']"

text \<open>At site \<open>i\<close> two environments read the same coordinates, and both read some width
  and some height.\<close>

definition agree_at :: "env \<Rightarrow> env \<Rightarrow> string \<Rightarrow> int \<Rightarrow> bool" where
  "agree_at e e' c i =
     (lookup_float e' (site_key i ''X'') c = lookup_float e (site_key i ''X'') c
      \<and> lookup_float e' (site_key i ''Y'') c = lookup_float e (site_key i ''Y'') c
      \<and> lookup_float e' (site_key i ''Z'') c = lookup_float e (site_key i ''Z'') c
      \<and> \<not> isl (lookup_float e (site_key i ''Dx'') c)
      \<and> \<not> isl (lookup_float e' (site_key i ''Dx'') c)
      \<and> \<not> isl (lookup_float e (site_key i ''Dy'') c)
      \<and> \<not> isl (lookup_float e' (site_key i ''Dy'') c))"

text \<open>Two environments that differ at most in the values under the unused keys of the
  text \<open>c\<close>.\<close>

definition same_but_unused_sizes :: "env \<Rightarrow> env \<Rightarrow> string \<Rightarrow> int \<Rightarrow> bool" where
  "same_but_unused_sizes e e' c n =
     (files e' = files e \<and> lookup_int e' = lookup_int e \<and> lookup_string e' = lookup_string e
      \<and> parse_int e' = parse_int e
      \<and> (\<forall>key \<in> set (used_float_keys n). lookup_float e' key c = lookup_float e key c)
      \<and> (\<forall>key \<in> set (unused_size_keys n).
            \<not> isl (lookup_float e key c) \<and> \<not> isl (lookup_float e' key c)))"

section \<open>Example files\<close>

text \<open>
  A file is represented by its text; the example lookups are tables from the text of a file
  to its fields.
\<close>

definition lookup_in :: "(string \<times> (string \<times> 'a) list) list \<Rightarrow> string \<Rightarrow> string \<Rightarrow> extract_failure + 'a" where
  "lookup_in tables key c =
     (case map_of tables c of
        None \<Rightarrow> Inl KeyNotFound
      | Some tbl \<Rightarrow> (case map_of tbl key of None \<Rightarrow> Inl KeyNotFound | Some v \<Rightarrow> Inr v))"

definition plate_rck :: string where
  "plate_rck = ''plate rck''"

definition plate_ctr :: string where
  "plate_ctr = ''plate ctr''"

definition rack_rck :: string where
  "rack_rck = ''rack rck''"

definition odd_rack_rck :: string where
  "odd_rack_rck = ''odd rack rck''"

definition carrier_rck :: string where
  "carrier_rck = ''Site.Cnt'' @ [CHR 0x01] @ ''2'' @ [CHR 0x08]"

definition flex_rck :: string where
  "flex_rck = ''Site.Cnt'' @ [CHR 0x02] @ ''2'' @ [CHR 0x08]"

definition flex0_rck :: string where
  "flex0_rck = ''Site.Cnt'' @ [CHR 0x02] @ ''2'' @ [CHR 0x08] @ ''with site 0''"

definition example_files :: "(string \<times> string) list" where
  "example_files =
     [(''Cos_96_ProtCryst.rck'', plate_rck), (''Cos_96_Post.ctr'', plate_ctr),
      (''Other.rck'', plate_rck), (''Other.ctr'', plate_ctr),
      (''x_P.rck'', plate_rck),
      (''4mlTF_L.rck'', rack_rck), (''odd.rck'', odd_rack_rck),
      (''PLT_CAR_L5AC_A00.rck'', carrier_rck), (''TIP_CAR_480_A00.rck'', carrier_rck),
      (''MFX_CAR_L5_base.rck'', flex_rck), (''MFX_CAR_L5_zero.rck'', flex0_rck)]"

definition example_ints :: "(string \<times> (string \<times> int) list) list" where
  "example_ints =
     [(plate_rck, [(''Columns'', 12), (''Rows'', 8), (''Category.0.Id'', 1050)]),
      (plate_ctr, [(''Segments'', 2), (''1.Shape'', 0), (''2.Shape'', 4)]),
      (rack_rck, [(''Columns'', 6), (''Rows'', 4)]),
      (odd_rack_rck, [(''Columns'', 6), (''Rows'', 4)]),
      (flex_rck, [(''Site.1.Visible'', 1), (''Site.2.Visible'', 1)]),
      (flex0_rck, [(''Site.0.Visible'', 1), (''Site.1.Visible'', 0), (''Site.2.Visible'', 1)])]"

definition site_floats :: "(string \<times> real) list" where
  "site_floats =
     [(''Site.1.X'', 4), (''Site.1.Y'', 1), (''Site.1.Z'', 2),
      (''Site.1.Dx'', 127), (''Site.1.Dy'', 86),
      (''Site.2.X'', 4), (''Site.2.Y'', 5), (''Site.2.Z'', 2),
      (''Site.2.Dx'', 100), (''Site.2.Dy'', 50),
      (''Dim.Dx'', 135), (''Dim.Dy'', 497), (''Dim.Dz'', 130)]"

definition example_floats :: "(string \<times> (string \<times> real) list) list" where
  "example_floats =
     [(plate_rck, [(''Dim.Dx'', 127), (''Dim.Dy'', 86), (''Dim.Dz'', 15), (''Dx'', 9),
                   (''Dy'', 4.5), (''BndryX'', 10), (''BndryY'', 8)]),
      (plate_ctr, [(''1.Max'', 10), (''2.Max'', 5), (''Dim.Dx'', 7), (''Dim.Dy'', 7),
                   (''Depth'', 11)]),
      (rack_rck, [(''Dim.Dx'', 122), (''Dim.Dy'', 82), (''Dim.Dz'', 7), (''Dx'', 18),
                  (''Dy'', 18), (''BndryX'', 16), (''BndryY'', 14), (''Cntr.1.base'', 3)]),
      (odd_rack_rck, [(''Dim.Dx'', 122), (''Dim.Dy'', 82), (''Dim.Dz'', 7), (''Dx'', 18),
                  (''Dy'', 18), (''BndryX'', 16), (''BndryY'', 14), (''Cntr.1.base'', 3)]),
      (carrier_rck, [(''Site.1.X'', 4), (''Site.1.Y'', 80), (''Site.1.Z'', 2),
                     (''Site.1.Dx'', 127), (''Site.1.Dy'', 86),
                     (''Site.2.X'', 4), (''Site.2.Y'', 8), (''Site.2.Z'', 2),
                     (''Site.2.Dx'', 100), (''Site.2.Dy'', 50),
                     (''Dim.Dx'', 135), (''Dim.Dy'', 497), (''Dim.Dz'', 130)]),
      (flex_rck, site_floats),
      (flex0_rck, site_floats)]"

definition example_strings :: "(string \<times> (string \<times> string) list) list" where
  "example_strings =
     [(plate_rck, [(''Cntr.1.file'', ''Cos_96_Post.ctr'')]),
      (plate_ctr, [(''1.EqnOfVol'', ''3.14*h*h''), (''2.EqnOfVol'', ''2*h'')]),
      (rack_rck, [(''PropertyValue.4'', ''MlStar4mlTipWithFilter''),
                  (''Description'', ''24 tips'')]),
      (odd_rack_rck, [(''PropertyValue.6'', ''SomeOtherTip''),
                      (''PropertyValue.4'', ''MlStar4mlTipWithFilter''),
                      (''Description'', ''odd tips'')]),
      (carrier_rck, [(''Description'', ''carrier'')]),
      (flex_rck, [(''Description'', ''flex carrier'')]),
      (flex0_rck, [(''Description'', ''flex carrier'')])]"

definition example_str_float :: "real \<Rightarrow> string" where
  "example_str_float v =
     (if v = 5 then ''5.0'' else if v = 10 then ''10.0'' else if v = 15 then ''15.0''
      else ''?'')"

definition example_parse_int :: "string \<Rightarrow> int option" where
  "example_parse_int s = (if s = ''2'' then Some 2 else None)"

definition example_env :: env where
  "example_env =
     \<lparr>files = map_of example_files,
      lookup_int = lookup_in example_ints,
      lookup_float = lookup_in example_floats,
      lookup_string = (\<lambda>key c. case lookup_in example_strings key c of
                                   Inl _ \<Rightarrow> None | Inr v \<Rightarrow> Some v),
      str_float = example_str_float,
      parse_int = example_parse_int\<rparr>"

text \<open>The example environment with other values for the width and height of site 1.\<close>

definition example_env_resized :: env where
  "example_env_resized =
     example_env\<lparr>lookup_float := (\<lambda>key c.
       if key = ''Site.1.Dx'' then Inr 1 else if key = ''Site.1.Dy'' then Inr 2
       else lookup_float example_env key c)\<rparr>"

text \<open>The descriptor and the volume function of the example plate.\<close>

definition example_plate :: plate where
  "example_plate =
     \<lparr>plate_name = ''Cos_96_ProtCryst'', plate_size_x = 127, plate_size_y = 86,
      plate_size_z = 15, plate_num_items_x = 12, plate_num_items_y = 8,
      plate_items =
        \<lparr>w_num_items_x = 12, w_num_items_y = 8, w_dx = 13 / 2, w_dy = 27 / 4, w_dz = 0,
         w_item_dx = 9, w_item_dy = 9, w_size_x = 7, w_size_y = 7, w_size_z = 11,
         w_bottom_type = Bottom_U, w_cross_section_type = Section_CIRCLE\<rparr>,
      plate_lid_height = 10, plate_model = ''Cos_96_ProtCryst''\<rparr>"

definition example_volume_text :: string where
  "example_volume_text =
     ''volume = 2*min(h, 5.0)'' @ newline
     @ ''if h <= 10.0:'' @ newline
     @ ''  volume += 3.14*(h-5.0)*(h-5.0)'' @ newline
     @ ''if h > 15.0:'' @ newline
     @ ''  raise ValueError(f'' @ dquote @ ''Height {h} is too large for Cos_96_ProtCryst''
     @ dquote @ '')'' @ newline
     @ ''return volume''"

text \<open>The descriptors of the example tip rack and carriers.\<close>

definition example_tip_rack :: tip_rack where
  "example_tip_rack =
     \<lparr>rack_name = ''FourmlTF_L'', rack_size_x = 122, rack_size_y = 82, rack_size_z = 7,
      rack_items =
        \<lparr>t_num_items_x = 6, t_num_items_y = 4, t_dx = 7, t_dy = 5, t_dz = 3,
         t_item_dx = 18, t_item_dy = 18, t_size_x = 18, t_size_y = 18, t_size_z = 7,
         t_make_tip = four_ml_tip_with_filter\<rparr>,
      rack_model = ''FourmlTF_L''\<rparr>"

definition example_carrier :: "carrier_class \<Rightarrow> string \<Rightarrow> carrier" where
  "example_carrier klass cname =
     \<lparr>carrier_class = klass, carrier_name = cname,
      carrier_size_x = 135, carrier_size_y = 497, carrier_size_z = 130,
      carrier_sites =
        [\<lparr>site_location = Coordinate 4 8 2, site_size_x = 100, site_size_y = 50\<rparr>,
         \<lparr>site_location = Coordinate 4 80 2, site_size_x = 100, site_size_y = 50\<rparr>],
      carrier_model = cname\<rparr>"

definition example_flex_carrier :: carrier where
  "example_flex_carrier =
     \<lparr>carrier_class = MFXCarrier, carrier_name = ''MFX_CAR_L5_zero'',
      carrier_size_x = 135, carrier_size_y = 497, carrier_size_z = 130,
      carrier_sites =
        [\<lparr>site_location = Coordinate 4 1 2, site_size_x = 100, site_size_y = 50\<rparr>],
      carrier_model = ''MFX_CAR_L5_zero''\<rparr>"

section \<open>Basic facts\<close>

lemma bind_Inl [simp]: "bind (Inl err) f = Inl err"
  by (simp add: bind_def)

lemma bind_Inr [simp]: "bind (Inr v) f = f v"
  by (simp add: bind_def)

lemma bind_eq_Inr: "bind m f = Inr r \<longleftrightarrow> (\<exists>v. m = Inr v \<and> f v = Inr r)"
  by (cases m) simp_all

lemma find_int_Inr: "find_int e key c = Inr v \<longleftrightarrow> lookup_int e key c = Inr v"
  by (simp add: find_int_def split: sum.splits)

lemma find_float_Inr: "find_float e key c = Inr v \<longleftrightarrow> lookup_float e key c = Inr v"
  by (simp add: find_float_def split: sum.splits)

lemma find_string_Inr: "find_string e key c = Inr v \<longleftrightarrow> lookup_string e key c = Some v"
  by (simp add: find_string_def split: option.splits)

lemma find_int_error: "find_int e key c = Inl err \<Longrightarrow> is_ValueError err"
  by (auto simp add: find_int_def split: sum.splits)

lemma find_float_error: "find_float e key c = Inl err \<Longrightarrow> is_ValueError err"
  by (auto simp add: find_float_def split: sum.splits)

lemma find_string_error: "find_string e key c = Inl err \<Longrightarrow> is_ValueError err"
  by (auto simp add: find_string_def split: option.splits)

lemma read_file_Inr: "read_file e path = Inr c \<longleftrightarrow> files e path = Some c"
  by (simp add: read_file_def split: option.splits)

section \<open>The Resource Classifier\<close>

lemma prefixes_exclusive:
  "startswith s ''TIP_CAR_'' \<Longrightarrow> \<not> startswith s ''PLT_CAR_''"
  "startswith s ''MFX_CAR_'' \<Longrightarrow> \<not> startswith s ''PLT_CAR_''"
  "startswith s ''MFX_CAR_'' \<Longrightarrow> \<not> startswith s ''TIP_CAR_''"
  "startswith s ''SMP_CAR_'' \<Longrightarrow> \<not> startswith s ''PLT_CAR_''"
  "startswith s ''SMP_CAR_'' \<Longrightarrow> \<not> startswith s ''TIP_CAR_''"
  "startswith s ''SMP_CAR_'' \<Longrightarrow> \<not> startswith s ''MFX_CAR_''"
  by (auto simp add: startswith_def)

text \<open>
  Without a carrier prefix the result is decided by the file at the canonical path: the
  nested \<open>try\<close> blocks amount to one decision list.
\<close>

lemma get_resource_type_unprefixed:
  assumes "\<not> carrier_prefixed (basename filepath)"
  shows "get_resource_type e filepath =
    (case files e (canonical_path filepath) of
       None \<Rightarrow> Inr ''TipRack''
     | Some c \<Rightarrow>
         if category_in e c 170 179 then Inr ''TipRack''
         else if category_in e c 1000 1099 then Inr ''Plate''
         else if lookup_string e ''Cntr.1.file'' c \<noteq> None then Inr ''Plate''
         else Inl (ValueError (''Unknown resource type for file '' @ basename filepath)))"
proof -
  from assms have np: "\<not> startswith (basename filepath) ''PLT_CAR_''"
    "\<not> startswith (basename filepath) ''TIP_CAR_''"
    "\<not> startswith (basename filepath) ''MFX_CAR_''"
    "\<not> startswith (basename filepath) ''SMP_CAR_''"
    by (simp_all add: carrier_prefixed_def)
  show ?thesis
  proof (cases "files e (canonical_path filepath)")
    case None
    then show ?thesis using np
      by (simp add: get_resource_type_def canonical_path_def Let_def)
  next
    case (Some c)
    then have f: "files e (canonical_path filepath) = Some c" .
    show ?thesis
    proof (cases "lookup_int e ''Category.0.Id'' c")
      case (Inl a)
      then show ?thesis using np f
        by (cases "lookup_string e ''Cntr.1.file'' c")
           (simp_all add: get_resource_type_def canonical_path_def Let_def category_in_def
              find_int_def find_string_def)
    next
      case (Inr v)
      then show ?thesis using np f
        by (cases "lookup_string e ''Cntr.1.file'' c")
           (simp_all add: get_resource_type_def canonical_path_def Let_def category_in_def
              find_int_def find_string_def)
    qed
  qed
qed

text \<open>
  Claim C3.  For a file path whose base name has no carrier prefix: when no file exists at
  the canonical (orientation-normalised) path the result is \<open>TipRack\<close>; otherwise the text
  of that file decides: \<open>TipRack\<close> when \<open>Category.0.Id\<close> is in 170 to 179, \<open>Plate\<close> when it
  is in 1000 to 1099, else \<open>Plate\<close> when \<open>Cntr.1.file\<close> is present, and else the call fails
  with the unknown-resource-type error that names the file.
\<close>

theorem classification_by_content:
  assumes "\<not> carrier_prefixed (basename filepath)"
  shows "get_resource_type e filepath =
    (case files e (canonical_path filepath) of
       None \<Rightarrow> Inr ''TipRack''
     | Some c \<Rightarrow>
         if category_in e c 170 179 then Inr ''TipRack''
         else if category_in e c 1000 1099 then Inr ''Plate''
         else if lookup_string e ''Cntr.1.file'' c \<noteq> None then Inr ''Plate''
         else Inl (ValueError (''Unknown resource type for file '' @ basename filepath)))"
  using assms by (rule get_resource_type_unprefixed)

text \<open>
  The theorem at two inputs: \<open>Other_L.rck\<close>, whose canonical file exists and carries the
  category 1050, and \<open>MyTips_L.rck\<close>, whose canonical file does not exist.
\<close>

theorem classification_by_content_witness:
  "\<not> carrier_prefixed (basename ''Other_L.rck'')
   \<and> files example_env (canonical_path ''Other_L.rck'') = Some plate_rck
   \<and> \<not> category_in example_env plate_rck 170 179
   \<and> category_in example_env plate_rck 1000 1099
   \<and> get_resource_type example_env ''Other_L.rck'' = Inr ''Plate''
   \<and> \<not> carrier_prefixed (basename ''MyTips_L.rck'')
   \<and> files example_env (canonical_path ''MyTips_L.rck'') = None
   \<and> get_resource_type example_env ''MyTips_L.rck'' = Inr ''TipRack''"
proof -
  have h1: "\<not> carrier_prefixed (basename ''Other_L.rck'')" by code_simp
  have f1: "files example_env (canonical_path ''Other_L.rck'') = Some plate_rck" by code_simp
  have c1: "\<not> category_in example_env plate_rck 170 179" by code_simp
  have c2: "category_in example_env plate_rck 1000 1099" by code_simp
  have h2: "\<not> carrier_prefixed (basename ''MyTips_L.rck'')" by code_simp
  have f2: "files example_env (canonical_path ''MyTips_L.rck'') = None" by code_simp
  show ?thesis
    using classification_by_content [OF h1, of example_env]
      classification_by_content [OF h2, of example_env] h1 f1 c1 c2 h2 f2
    by simp
qed

text \<open>
  Claim C5.  A base name that starts with \<open>PLT_CAR_\<close>, \<open>TIP_CAR_\<close> or \<open>MFX_CAR_\<close> is
  classified as \<open>PlateCarrier\<close>, \<open>TipCarrier\<close> or \<open>MFXCarrier\<close>, and one that starts with
  \<open>SMP_CAR_\<close> fails with the not-supported error; the file system and the file contents
  play no part, the result is the same in every environment.
\<close>

theorem carrier_prefix_classification:
  "(startswith (basename filepath) ''PLT_CAR_'' \<longrightarrow>
      get_resource_type e filepath = Inr ''PlateCarrier'')
   \<and> (startswith (basename filepath) ''TIP_CAR_'' \<longrightarrow>
        get_resource_type e filepath = Inr ''TipCarrier'')
   \<and> (startswith (basename filepath) ''MFX_CAR_'' \<longrightarrow>
        get_resource_type e filepath = Inr ''MFXCarrier'')
   \<and> (startswith (basename filepath) ''SMP_CAR_'' \<longrightarrow>
        get_resource_type e filepath = Inl (ValueError ''SMP_CAR_ not supported yet''))
   \<and> (carrier_prefixed (basename filepath) \<longrightarrow>
        get_resource_type e filepath = get_resource_type e' filepath)"
  by (auto simp add: get_resource_type_def Let_def carrier_prefixed_def prefixes_exclusive)

theorem carrier_prefix_classification_witness:
  "startswith (basename ''dir/PLT_CAR_L5AC_A00.rck'') ''PLT_CAR_''
   \<and> get_resource_type example_env ''dir/PLT_CAR_L5AC_A00.rck'' = Inr ''PlateCarrier''
   \<and> startswith (basename ''TIP_CAR_480_A00.rck'') ''TIP_CAR_''
   \<and> get_resource_type example_env ''TIP_CAR_480_A00.rck'' = Inr ''TipCarrier''
   \<and> startswith (basename ''MFX_CAR_L5_base.rck'') ''MFX_CAR_''
   \<and> get_resource_type example_env ''MFX_CAR_L5_base.rck'' = Inr ''MFXCarrier''
   \<and> startswith (basename ''SMP_CAR_32_A00.rck'') ''SMP_CAR_''
   \<and> get_resource_type example_env ''SMP_CAR_32_A00.rck''
       = Inl (ValueError ''SMP_CAR_ not supported yet'')"
proof -
  have h1: "startswith (basename ''dir/PLT_CAR_L5AC_A00.rck'') ''PLT_CAR_''" by code_simp
  have h2: "startswith (basename ''TIP_CAR_480_A00.rck'') ''TIP_CAR_''" by code_simp
  have h3: "startswith (basename ''MFX_CAR_L5_base.rck'') ''MFX_CAR_''" by code_simp
  have h4: "startswith (basename ''SMP_CAR_32_A00.rck'') ''SMP_CAR_''" by code_simp
  show ?thesis
    using carrier_prefix_classification [of "''dir/PLT_CAR_L5AC_A00.rck''" example_env example_env]
      carrier_prefix_classification [of "''TIP_CAR_480_A00.rck''" example_env example_env]
      carrier_prefix_classification [of "''MFX_CAR_L5_base.rck''" example_env example_env]
      carrier_prefix_classification [of "''SMP_CAR_32_A00.rck''" example_env example_env]
      h1 h2 h3 h4
    by simp
qed

text \<open>
  Claim C6, as stated, fails.  The path \<open>x_P_L.rck\<close> has no carrier prefix and carries the
  suffix \<open>_L.rck\<close>.  Its normalisation is \<open>x_P.rck\<close>, a file that exists and holds a plate,
  so it is classified as \<open>Plate\<close>.  The un-suffixed name \<open>x_P.rck\<close> is itself normalised
  to \<open>x.rck\<close>, which does not exist: both it and \<open>x.rck\<close> are classified as \<open>TipRack\<close>.
\<close>

theorem orientation_suffix_counterexample:
  "\<not> carrier_prefixed (basename ''x_P_L.rck'')
   \<and> endswith ''x_P_L.rck'' ''_L.rck''
   \<and> get_resource_type example_env ''x_P_L.rck'' = Inr ''Plate''
   \<and> get_resource_type example_env ''x_P.rck'' = Inr ''TipRack''
   \<and> get_resource_type example_env ''x.rck'' = Inr ''TipRack''"
  by code_simp

text \<open>
  An occurrence of an orientation suffix that begins inside \<open>s\<close> cannot run over into an
  appended suffix: the suffix has its only underscore in front.
\<close>

lemma startswith_append_suffix:
  assumes "startswith (s @ CHR ''_'' # ch # ''.rck'') (CHR ''_'' # ch # ''.rck'')"
    and "s \<noteq> []" and "ch \<noteq> CHR ''_''"
  shows "startswith s (CHR ''_'' # ch # ''.rck'')"
proof (cases "6 \<le> length s")
  case True
  with assms(1) show ?thesis by (simp add: startswith_def)
next
  case False
  let ?pat = "CHR ''_'' # ch # ''.rck''"
  have t: "take (length ?pat) (s @ ?pat) = ?pat"
    using assms(1) unfolding startswith_def .
  have "take (length ?pat) (s @ ?pat) ! length s = (s @ ?pat) ! length s"
    by (rule nth_take) (use False in simp)
  then have "?pat ! length s = (s @ ?pat) ! length s"
    unfolding t .
  then have "?pat ! length s = CHR ''_''"
    by simp
  moreover from assms(2) have "0 < length s" by simp
  with False have
    "length s = 1 \<or> length s = 2 \<or> length s = 3 \<or> length s = 4 \<or> length s = 5"
    by arith
  ultimately show ?thesis
    using assms(3) by auto
qed

lemma replace_suffix:
  assumes "\<not> occurs s (CHR ''_'' # ch # ''.rck'')" and "ch \<noteq> CHR ''_''"
  shows "replace (s @ CHR ''_'' # ch # ''.rck'') (CHR ''_'' # ch # ''.rck'') new = s @ new"
  using assms(1)
proof (induction s)
  case Nil
  then show ?case by (simp add: startswith_def)
next
  case (Cons c cs)
  then have "\<not> startswith ((c # cs) @ CHR ''_'' # ch # ''.rck'') (CHR ''_'' # ch # ''.rck'')"
    using startswith_append_suffix [of "c # cs" ch] assms(2) by auto
  with Cons show ?case by simp
qed

lemma basename_append:
  assumes "CHR ''/'' \<notin> set t"
  shows "basename (s @ t) = basename s @ t"
proof -
  have "takeWhile (\<lambda>c. c \<noteq> CHR ''/'') (rev t @ rev s)
          = rev t @ takeWhile (\<lambda>c. c \<noteq> CHR ''/'') (rev s)"
    by (rule takeWhile_append2) (use assms in auto)
  then show ?thesis
    by (simp add: basename_def)
qed

lemma endswith_append: "endswith (s @ t) t"
  by (simp add: endswith_def)

lemma endswith_append_same_length:
  "length t = length u \<Longrightarrow> endswith (s @ t) u \<longleftrightarrow> t = u"
  by (auto simp add: endswith_def)

lemma endswith_rck:
  "endswith (s @ ''.rck'') (CHR ''_'' # ch # ''.rck'') \<longleftrightarrow> endswith s [CHR ''_'', ch]"
proof -
  have "drop (length s + 4 - 6) (s @ ''.rck'') = drop (length s - 2) s @ ''.rck''"
    by simp
  then show ?thesis
    by (auto simp add: endswith_def)
qed

lemma canonical_path_L:
  assumes "\<not> occurs s ''_L.rck''"
  shows "canonical_path (s @ ''_L.rck'') = s @ ''.rck''"
proof -
  have "basename (s @ ''_L.rck'') = basename s @ ''_L.rck''"
    by (rule basename_append) simp
  then have "\<not> endswith (basename (s @ ''_L.rck'')) ''_P.rck''"
    by (simp add: endswith_append_same_length)
  then show ?thesis
    using replace_suffix [OF assms, of "''.rck''"] by (simp add: canonical_path_def endswith_append)
qed

lemma canonical_path_P:
  assumes "\<not> occurs s ''_P.rck''"
  shows "canonical_path (s @ ''_P.rck'') = s @ ''.rck''"
proof -
  have "basename (s @ ''_P.rck'') = basename s @ ''_P.rck''"
    by (rule basename_append) simp
  then have "endswith (basename (s @ ''_P.rck'')) ''_P.rck''"
    by (simp add: endswith_append)
  moreover have "\<not> endswith (s @ ''_P.rck'') ''_L.rck''"
    by (simp add: endswith_append_same_length)
  ultimately show ?thesis
    using replace_suffix [OF assms, of "''.rck''"] by (simp add: canonical_path_def)
qed

lemma canonical_path_plain:
  assumes "\<not> endswith s ''_L''" and "\<not> endswith (basename s) ''_P''"
  shows "canonical_path (s @ ''.rck'') = s @ ''.rck''"
proof -
  have "basename (s @ ''.rck'') = basename s @ ''.rck''"
    by (rule basename_append) simp
  then show ?thesis
    using assms endswith_rck [of s "CHR ''L''"] endswith_rck [of "basename s" "CHR ''P''"]
    by (simp add: canonical_path_def)
qed


text \<open>
  Two paths with the same canonical path, itself canonical, are classified alike.
\<close>

lemma same_kind_by_canonical_path:
  assumes "\<not> carrier_prefixed (basename p)" and "\<not> carrier_prefixed (basename q)"
    and "canonical_path p = q" and "canonical_path q = q"
  shows "get_resource_type e p = get_resource_type e q
     \<or> (get_resource_type e p
           = Inl (ValueError (''Unknown resource type for file '' @ basename p))
        \<and> get_resource_type e q
           = Inl (ValueError (''Unknown resource type for file '' @ basename q)))"
  using assms
  by (simp add: get_resource_type_unprefixed split: option.splits)

lemma startswith_before_dot:
  assumes "startswith (b @ CHR ''.'' # t) pre" and "CHR ''.'' \<notin> set pre"
  shows "startswith b pre"
proof (cases "length pre \<le> length b")
  case True
  with assms(1) show ?thesis by (simp add: startswith_def)
next
  case False
  have t: "take (length pre) (b @ CHR ''.'' # t) = pre"
    using assms(1) unfolding startswith_def .
  have "take (length pre) (b @ CHR ''.'' # t) ! length b = (b @ CHR ''.'' # t) ! length b"
    by (rule nth_take) (use False in simp)
  then have "pre ! length b = CHR ''.''"
    unfolding t by simp
  moreover from False have "pre ! length b \<in> set pre"
    by simp
  ultimately show ?thesis
    using assms(2) by simp
qed

lemma startswith_append: "startswith b pre \<Longrightarrow> startswith (b @ t) pre"
proof -
  assume a: "startswith b pre"
  then have "length (take (length pre) b) = length pre"
    by (simp add: startswith_def)
  then have "length pre \<le> length b"
    by simp
  with a show ?thesis by (simp add: startswith_def)
qed

lemma carrier_prefixed_rck:
  assumes "carrier_prefixed (b @ ''.rck'')"
  shows "carrier_prefixed (b @ t)"
proof -
  have "startswith b pre" if "startswith (b @ ''.rck'') pre" "CHR ''.'' \<notin> set pre" for pre
    using startswith_before_dot [of b "''rck''" pre] that by simp
  with assms show ?thesis
    unfolding carrier_prefixed_def by (auto intro!: startswith_append)
qed

text \<open>
  Claim C6, amended.  Let \<open>p\<close> be a path without carrier prefix that is a stem \<open>s\<close> followed by
  \<open>_L.rck\<close> or \<open>_P.rck\<close>, where that suffix does not occur inside \<open>s\<close>, \<open>s\<close> does not end
  with \<open>_L\<close> and the base name of \<open>s\<close> does not end with \<open>_P\<close>.  Then the classifier inspects the
  un-suffixed path \<open>q = s.rck\<close> for \<open>p\<close> and for \<open>q\<close>, and classifying \<open>p\<close> and classifying \<open>q\<close>
  give the same result, but for the file name in the error when no rule matches: that
  error names the base name of the path that was passed.
\<close>

theorem orientation_suffix_same_kind:
  assumes "ch = CHR ''L'' \<or> ch = CHR ''P''"
    and "\<not> carrier_prefixed (basename (s @ CHR ''_'' # ch # ''.rck''))"
    and "\<not> occurs s (CHR ''_'' # ch # ''.rck'')"
    and "\<not> endswith s ''_L''" and "\<not> endswith (basename s) ''_P''"
  shows "canonical_path (s @ CHR ''_'' # ch # ''.rck'') = s @ ''.rck''
     \<and> canonical_path (s @ ''.rck'') = s @ ''.rck''
     \<and> (get_resource_type e (s @ CHR ''_'' # ch # ''.rck'') = get_resource_type e (s @ ''.rck'')
        \<or> (get_resource_type e (s @ CHR ''_'' # ch # ''.rck'')
              = Inl (ValueError (''Unknown resource type for file ''
                      @ basename (s @ CHR ''_'' # ch # ''.rck'')))
           \<and> get_resource_type e (s @ ''.rck'')
              = Inl (ValueError (''Unknown resource type for file ''
                      @ basename (s @ ''.rck'')))))"
proof -
  let ?p = "s @ CHR ''_'' # ch # ''.rck''"
  from assms(1,3) have cp: "canonical_path ?p = s @ ''.rck''"
    using canonical_path_L [of s] canonical_path_P [of s] by auto
  have cq: "canonical_path (s @ ''.rck'') = s @ ''.rck''"
    by (rule canonical_path_plain [OF assms(4,5)])
  from assms(1) have "basename ?p = basename s @ CHR ''_'' # ch # ''.rck''"
    by (intro basename_append) auto
  moreover have "basename (s @ ''.rck'') = basename s @ ''.rck''"
    by (rule basename_append) simp
  ultimately have nq: "\<not> carrier_prefixed (basename (s @ ''.rck''))"
    using assms(2) carrier_prefixed_rck [of "basename s" "CHR ''_'' # ch # ''.rck''"] by auto
  from same_kind_by_canonical_path [OF assms(2) nq cp cq, of e] cp cq show ?thesis
    by simp
qed

theorem orientation_suffix_same_kind_witness:
  "\<not> carrier_prefixed (basename ''Other_L.rck'')
   \<and> \<not> occurs ''Other'' ''_L.rck''
   \<and> \<not> endswith ''Other'' ''_L''
   \<and> \<not> endswith (basename ''Other'') ''_P''
   \<and> canonical_path ''Other_L.rck'' = ''Other.rck''
   \<and> canonical_path ''Other.rck'' = ''Other.rck''
   \<and> get_resource_type example_env ''Other_L.rck'' = Inr ''Plate''
   \<and> get_resource_type example_env ''Other.rck'' = Inr ''Plate''"
proof -
  have h1: "\<not> carrier_prefixed (basename (''Other'' @ CHR ''_'' # CHR ''L'' # ''.rck''))"
    by code_simp
  have h2: "\<not> occurs ''Other'' (CHR ''_'' # CHR ''L'' # ''.rck'')" by code_simp
  have h3: "\<not> endswith ''Other'' ''_L''" by code_simp
  have h4: "\<not> endswith (basename ''Other'') ''_P''" by code_simp
  have r: "get_resource_type example_env ''Other.rck'' = Inr ''Plate''" by code_simp
  show ?thesis
    using orientation_suffix_same_kind [OF _ h1 h2 h3 h4, of example_env] h1 h2 h3 h4 r
    by simp
qed

section \<open>Plates\<close>

text \<open>What a successful parse of a plate has read, and the descriptor it returns.\<close>

lemma plate_success:
  assumes "create_plate_for_writing e filepath ctr_filepath = Inr (p, d, vol)"
  shows "\<exists>c c2 size_x size_y size_z nx ny well_dx well_dy bx by' n st sx sy bcode ccode sz dz.
     read_file e filepath = Inr c
     \<and> find_float e ''Dim.Dx'' c = Inr size_x
     \<and> find_float e ''Dim.Dy'' c = Inr size_y
     \<and> find_float e ''Dim.Dz'' c = Inr size_z
     \<and> find_int e ''Columns'' c = Inr nx
     \<and> find_int e ''Rows'' c = Inr ny
     \<and> find_float e ''Dx'' c = Inr well_dx
     \<and> find_float e ''Dy'' c = Inr well_dy
     \<and> find_float e ''BndryX'' c = Inr bx
     \<and> find_float e ''BndryY'' c = Inr by'
     \<and> read_file e (ctr_path_of filepath ctr_filepath) = Inr c2
     \<and> find_int e ''Segments'' c2 = Inr n
     \<and> vol_eqn_loop e c2 n (rev [1..n]) ([], PyInt 0) = Inr st
     \<and> find_float e ''Dim.Dx'' c2 = Inr sx
     \<and> find_float e ''Dim.Dy'' c2 = Inr sy
     \<and> find_int e (str_int n @ ''.Shape'') c2 = Inr bcode
     \<and> find_int e ''1.Shape'' c2 = Inr ccode
     \<and> find_float e ''Depth'' c2 = Inr sz
     \<and> d = stem filepath
     \<and> vol = fst st @ range_guard_text e (stem filepath) (snd st)
     \<and> p = \<lparr>plate_name = stem filepath,
           plate_size_x = size_x,
           plate_size_y = size_y,
           plate_size_z = size_z,
           plate_num_items_x = nx,
           plate_num_items_y = ny,
           plate_items =
             \<lparr>w_num_items_x = nx,
              w_num_items_y = ny,
              w_dx = py_round (bx - well_dx / 2) 4 + (well_dx - sx) / 2,
              w_dy = py_round (by' - well_dy / 2) 4
                      + ((if stem filepath = ''Cos_96_ProtCryst'' \<and> well_dy = 4.5
                          then 9.0 else well_dy) - sy) / 2,
              w_dz = dz,
              w_item_dx = well_dx,
              w_item_dy = (if stem filepath = ''Cos_96_ProtCryst'' \<and> well_dy = 4.5
                           then 9.0 else well_dy),
              w_size_x = sx,
              w_size_y = sy,
              w_size_z = sz,
              w_bottom_type = well_bottom_type_of bcode,
              w_cross_section_type = cross_section_type_of ccode\<rparr>,
           plate_lid_height = 10,
           plate_model = stem filepath\<rparr>"
  using assms
  unfolding create_plate_for_writing_def Let_def bind_eq_Inr
    ctr_path_of_def [symmetric] stem_def [symmetric]
  apply (elim exE conjE)
  apply (clarsimp simp add: range_guard_text_def)
  done

lemma example_plate_parse:
  "create_plate_for_writing example_env ''Cos_96_ProtCryst.rck'' None
     = Inr (example_plate, ''Cos_96_ProtCryst'', example_volume_text)"
  by code_simp

text \<open>
  Claim C8.  The row pitch that is used for the placement of the items is 9.0 when the
  stem of the file name is \<open>Cos_96_ProtCryst\<close> and the pitch \<open>Dy\<close> reads as 4.5; in every
  other case it is the pitch \<open>Dy\<close> as read.  The column pitch is always \<open>Dx\<close> as read.
\<close>

theorem row_pitch_special_case:
  assumes "create_plate_for_writing e filepath ctr_filepath = Inr (p, d, vol)"
    and "files e filepath = Some c"
    and "lookup_float e ''Dx'' c = Inr pitch_x"
    and "lookup_float e ''Dy'' c = Inr pitch_y"
  shows "w_item_dy (plate_items p) =
           (if stem filepath = ''Cos_96_ProtCryst'' \<and> pitch_y = 4.5 then 9.0 else pitch_y)
         \<and> w_item_dx (plate_items p) = pitch_x"
  using plate_success [OF assms(1)] assms(2-)
  by (auto simp add: read_file_Inr find_float_Inr)

text \<open>
  The theorem at \<open>Cos_96_ProtCryst.rck\<close>, where \<open>Dy\<close> reads as 4.5 and 9 is used, and at
  \<open>Other.rck\<close>, a file of the same text under another name, where 4.5 is used.
\<close>

theorem row_pitch_special_case_witness:
  "create_plate_for_writing example_env ''Cos_96_ProtCryst.rck'' None
     = Inr (example_plate, ''Cos_96_ProtCryst'', example_volume_text)
   \<and> files example_env ''Cos_96_ProtCryst.rck'' = Some plate_rck
   \<and> lookup_float example_env ''Dx'' plate_rck = Inr 9
   \<and> lookup_float example_env ''Dy'' plate_rck = Inr 4.5
   \<and> stem ''Cos_96_ProtCryst.rck'' = ''Cos_96_ProtCryst''
   \<and> w_item_dy (plate_items example_plate) = 9
   \<and> w_item_dx (plate_items example_plate) = 9
   \<and> \<not> isl (create_plate_for_writing example_env ''Other.rck'' None)
   \<and> files example_env ''Other.rck'' = Some plate_rck
   \<and> stem ''Other.rck'' = ''Other''
   \<and> w_item_dy (plate_items (fst (projr (create_plate_for_writing example_env ''Other.rck'' None))))
       = 4.5"
proof -
  have h2: "files example_env ''Cos_96_ProtCryst.rck'' = Some plate_rck" by code_simp
  have h3: "lookup_float example_env ''Dx'' plate_rck = Inr 9" by code_simp
  have h4: "lookup_float example_env ''Dy'' plate_rck = Inr 4.5" by code_simp
  have h5: "stem ''Cos_96_ProtCryst.rck'' = ''Cos_96_ProtCryst''" by code_simp
  have o1: "\<not> isl (create_plate_for_writing example_env ''Other.rck'' None)" by code_simp
  then obtain p d vol
    where o2: "create_plate_for_writing example_env ''Other.rck'' None = Inr (p, d, vol)"
    by (cases "create_plate_for_writing example_env ''Other.rck'' None") auto
  have o3: "files example_env ''Other.rck'' = Some plate_rck" by code_simp
  have o4: "stem ''Other.rck'' = ''Other''" by code_simp
  show ?thesis
    using row_pitch_special_case [OF example_plate_parse h2 h3 h4]
      row_pitch_special_case [OF o2 o3 h3 h4] example_plate_parse h2 h3 h4 h5 o1 o2 o3 o4
    by simp
qed

text \<open>
  Claim C4, as stated, fails.  In \<open>Other.rck\<close> the boundary \<open>BndryX\<close> is 10 and the pitch
  \<open>Dx\<close> is 9; in its \<open>.ctr\<close> file the well footprint \<open>Dim.Dx\<close> is 7.  The corner that the
  parser passes on is \<open>round(10 - 9/2, 4) + (9 - 7)/2 = 6.5\<close>; the stated formula, which
  subtracts half the item size before rounding, gives \<open>round(10 - 7/2, 4) + (9 - 7)/2 = 7.5\<close>.
\<close>

theorem stated_corner_counterexample:
  "files example_env ''Other.rck'' = Some plate_rck
   \<and> files example_env (ctr_path_of ''Other.rck'' None) = Some plate_ctr
   \<and> lookup_float example_env ''BndryX'' plate_rck = Inr 10
   \<and> lookup_float example_env ''Dx'' plate_rck = Inr 9
   \<and> lookup_float example_env ''Dim.Dx'' plate_ctr = Inr 7
   \<and> \<not> isl (create_plate_for_writing example_env ''Other.rck'' None)
   \<and> w_dx (plate_items (fst (projr (create_plate_for_writing example_env ''Other.rck'' None))))
       = 13 / 2
   \<and> stated_corner 10 7 9 = 15 / 2"
  by code_simp

text \<open>
  Claim C4, amended.  For every successfully parsed plate file, the corner coordinate of
  each axis is the boundary coordinate (\<open>BndryX\<close>, \<open>BndryY\<close>) minus half the cell pitch
  (\<open>Dx\<close>, \<open>Dy\<close> as read from the \<open>.rck\<close> file), rounded to 4 decimal places, plus the border
  correction: half of the difference of the pitch used for the placement of the items and
  the item size (\<open>Dim.Dx\<close>, \<open>Dim.Dy\<close> of the \<open>.ctr\<close> file).  The pitch used for the placement
  is the pitch as read, but for the row pitch of the special case of claim C8.
\<close>

theorem corner_coordinates:
  assumes "create_plate_for_writing e filepath ctr_filepath = Inr (p, d, vol)"
    and "files e filepath = Some c"
    and "files e (ctr_path_of filepath ctr_filepath) = Some c2"
    and "lookup_float e ''BndryX'' c = Inr boundary_x"
    and "lookup_float e ''BndryY'' c = Inr boundary_y"
    and "lookup_float e ''Dx'' c = Inr pitch_x"
    and "lookup_float e ''Dy'' c = Inr pitch_y"
    and "lookup_float e ''Dim.Dx'' c2 = Inr item_size_x"
    and "lookup_float e ''Dim.Dy'' c2 = Inr item_size_y"
  shows "w_dx (plate_items p) = computed_corner boundary_x item_size_x pitch_x pitch_x
       \<and> w_dy (plate_items p) =
           computed_corner boundary_y item_size_y pitch_y (w_item_dy (plate_items p))
       \<and> w_item_dx (plate_items p) = pitch_x
       \<and> (\<not> (stem filepath = ''Cos_96_ProtCryst'' \<and> pitch_y = 4.5) \<longrightarrow>
            w_item_dy (plate_items p) = pitch_y)"
  using plate_success [OF assms(1)] assms(2-)
  by (auto simp add: read_file_Inr find_float_Inr computed_corner_def)

theorem corner_coordinates_witness:
  "create_plate_for_writing example_env ''Cos_96_ProtCryst.rck'' None
     = Inr (example_plate, ''Cos_96_ProtCryst'', example_volume_text)
   \<and> files example_env ''Cos_96_ProtCryst.rck'' = Some plate_rck
   \<and> files example_env (ctr_path_of ''Cos_96_ProtCryst.rck'' None) = Some plate_ctr
   \<and> lookup_float example_env ''BndryX'' plate_rck = Inr 10
   \<and> lookup_float example_env ''BndryY'' plate_rck = Inr 8
   \<and> lookup_float example_env ''Dx'' plate_rck = Inr 9
   \<and> lookup_float example_env ''Dy'' plate_rck = Inr 4.5
   \<and> lookup_float example_env ''Dim.Dx'' plate_ctr = Inr 7
   \<and> lookup_float example_env ''Dim.Dy'' plate_ctr = Inr 7
   \<and> w_dx (plate_items example_plate) = computed_corner 10 7 9 9
   \<and> w_dy (plate_items example_plate) = computed_corner 8 7 4.5 9
   \<and> computed_corner 10 7 9 9 = 13 / 2
   \<and> computed_corner 8 7 4.5 9 = 27 / 4"
proof -
  have h2: "files example_env ''Cos_96_ProtCryst.rck'' = Some plate_rck" by code_simp
  have h3: "files example_env (ctr_path_of ''Cos_96_ProtCryst.rck'' None) = Some plate_ctr"
    by code_simp
  have h4: "lookup_float example_env ''BndryX'' plate_rck = Inr 10" by code_simp
  have h5: "lookup_float example_env ''BndryY'' plate_rck = Inr 8" by code_simp
  have h6: "lookup_float example_env ''Dx'' plate_rck = Inr 9" by code_simp
  have h7: "lookup_float example_env ''Dy'' plate_rck = Inr 4.5" by code_simp
  have h8: "lookup_float example_env ''Dim.Dx'' plate_ctr = Inr 7" by code_simp
  have h9: "lookup_float example_env ''Dim.Dy'' plate_ctr = Inr 7" by code_simp
  have i: "w_item_dy (plate_items example_plate) = 9" by (simp add: example_plate_def)
  have v1: "computed_corner 10 7 9 9 = 13 / 2" by code_simp
  have v2: "computed_corner 8 7 4.5 9 = 27 / 4" by code_simp
  show ?thesis
    using corner_coordinates [OF example_plate_parse h2 h3 h4 h5 h6 h7 h8 h9]
      example_plate_parse h2 h3 h4 h5 h6 h7 h8 h9 i v1 v2
    by simp
qed

section \<open>The Volume-Equation Synthesizer\<close>

text \<open>Replacing a single character replaces each of its occurrences.\<close>

lemma replace_char:
  "replace s [ch] new = concat (map (\<lambda>x. if x = ch then new else [x]) s)"
  by (induction s) (auto simp add: startswith_def)

lemma rev_upto_Suc: "rev [1..int (Suc k)] = int (Suc k) # rev [1..int k]"
  by (simp add: upto_rec2)

lemma emitted_step:
  "k < length segs \<Longrightarrow> emitted e segs k = emitted e segs (Suc k) @ segment_term e segs (Suc k)"
  by (simp add: emitted_def upt_conv_Cons del: upt_Suc)

lemma height_below_step:
  "k < length segs \<Longrightarrow> height_below segs k = add_float (height_below segs (Suc k)) (snd (segs ! k))"
  by (simp add: height_below_def Cons_nth_drop_Suc [symmetric])

text \<open>
  The loop invariant: when the loop reaches segment \<open>k\<close>, it has emitted the terms of the
  segments below and accumulated their heights.
\<close>

lemma vol_eqn_loop_segments:
  assumes "segments_read e c2 segs" and "k \<le> length segs"
  shows "vol_eqn_loop e c2 (int (length segs)) (rev [1..int k])
           (emitted e segs k, height_below segs k)
         = Inr (emitted e segs 0, height_below segs 0)"
  using assms(2)
proof (induction k)
  case 0
  then show ?case by simp
next
  case (Suc k)
  then have k: "k < length segs" by simp
  with assms(1) have
    eqn: "find_string e (str_int (int (Suc k)) @ ''.EqnOfVol'') c2 = Inr (fst (segs ! k))" and
    mx: "find_float e (str_int (int (Suc k)) @ ''.Max'') c2 = Inr (snd (segs ! k))"
    by (simp_all add: segments_read_def find_string_Inr find_float_Inr)
  have step: "(if int (Suc k) = int (length segs)
           then emitted e segs (Suc k) @ ''volume = ''
                  @ replace (fst (segs ! k)) ''h'' (''min(h, '' @ str_float e (snd (segs ! k)) @ '')'')
                  @ newline
           else emitted e segs (Suc k) @ ''if h <= '' @ str_float e (snd (segs ! k)) @ '':'' @ newline
                  @ ''  volume += ''
                  @ replace (fst (segs ! k)) ''h'' (''(h-'' @ str_num e (height_below segs (Suc k)) @ '')'')
                  @ newline) = emitted e segs k"
    using k by (simp add: emitted_step segment_term_def base_term_def conditional_term_def
         substitute_h_def replace_char)
  from Suc.IH k have IH: "vol_eqn_loop e c2 (int (length segs)) (rev [1..int k])
           (emitted e segs k, height_below segs k)
         = Inr (emitted e segs 0, height_below segs 0)" by simp
  show ?case
    unfolding rev_upto_Suc vol_eqn_loop.simps eqn mx sum.case fst_conv snd_conv step
      height_below_step [OF k, symmetric]
    by (rule IH)
qed

text \<open>
  Claim C1.  When the \<open>.ctr\<close> record has the segments \<open>segs\<close> (index 1 the top one, \<open>N\<close> the
  bottom one), the volume-function text of a successful parse is the one the specification
  describes: the terms of the segments \<open>N\<close> down to 1, where segment \<open>N\<close> gives
  \<open>volume = \<dots>\<close> with every \<open>h\<close> of its equation replaced by \<open>min(h, max N)\<close> and every
  segment \<open>i < N\<close> gives \<open>if h <= max i:\<close> with the addition of its equation, every \<open>h\<close>
  replaced by \<open>(h-S)\<close>, \<open>S\<close> the sum of the maxima of the segments below \<open>i\<close>; then the
  guard that raises the error naming the height and the resource when \<open>h\<close> exceeds the sum
  of all maxima.
\<close>

theorem volume_function_synthesis:
  assumes "create_plate_for_writing e filepath ctr_filepath = Inr (p, d, vol)"
    and "files e (ctr_path_of filepath ctr_filepath) = Some c2"
    and "segments_read e c2 segs"
  shows "vol = volume_function e (stem filepath) segs"
proof -
  from plate_success [OF assms(1)] assms(2) obtain n st where
    n: "find_int e ''Segments'' c2 = Inr n" and
    loop: "vol_eqn_loop e c2 n (rev [1..n]) ([], PyInt 0) = Inr st" and
    vol: "vol = fst st @ range_guard_text e (stem filepath) (snd st)"
    by (auto simp add: read_file_Inr)
  from n assms(3) have n_eq: "n = int (length segs)"
    by (simp add: segments_read_def find_int_Inr)
  have start: "emitted e segs (length segs) = []" "height_below segs (length segs) = PyInt 0"
    by (simp_all add: emitted_def height_below_def)
  from vol_eqn_loop_segments [OF assms(3) order_refl] loop
  have "st = (emitted e segs 0, height_below segs 0)"
    by (simp add: n_eq start)
  with vol show ?thesis
    by (simp add: volume_function_def emitted_def)
qed

text \<open>
  The theorem at the example of the specification: the segments \<open>(max 10, 3.14*h*h)\<close> and
  \<open>(max 5, 2*h)\<close>, top segment first.
\<close>

theorem volume_function_synthesis_witness:
  "create_plate_for_writing example_env ''Cos_96_ProtCryst.rck'' None
     = Inr (example_plate, ''Cos_96_ProtCryst'', example_volume_text)
   \<and> files example_env (ctr_path_of ''Cos_96_ProtCryst.rck'' None) = Some plate_ctr
   \<and> segments_read example_env plate_ctr [(''3.14*h*h'', 10), (''2*h'', 5)]
   \<and> stem ''Cos_96_ProtCryst.rck'' = ''Cos_96_ProtCryst''
   \<and> example_volume_text
       = volume_function example_env ''Cos_96_ProtCryst'' [(''3.14*h*h'', 10), (''2*h'', 5)]"
proof -
  have h2: "files example_env (ctr_path_of ''Cos_96_ProtCryst.rck'' None) = Some plate_ctr"
    by code_simp
  have h3: "segments_read example_env plate_ctr [(''3.14*h*h'', 10), (''2*h'', 5)]"
    by code_simp
  have h4: "stem ''Cos_96_ProtCryst.rck'' = ''Cos_96_ProtCryst''" by code_simp
  show ?thesis
    using volume_function_synthesis [OF example_plate_parse h2 h3] example_plate_parse h2 h3 h4
    by simp
qed


section \<open>Tip racks\<close>

lemma tip_table_None: "tip_table t = None \<longleftrightarrow> t \<notin> set recognized_tip_types"
  by (simp add: tip_table_def recognized_tip_types_def)

lemma tip_rack_success:
  assumes "create_tip_rack_for_writing e filepath = Inr (r, d)"
  shows "\<exists>c t cname. read_file e filepath = Inr c \<and> read_tip_type e c = Inr t
     \<and> tip_table t = Some (t_make_tip (rack_items r))
     \<and> rack_cname (stem filepath) = Inr cname \<and> rack_name r = cname \<and> rack_model r = cname"
  using assms
  unfolding create_tip_rack_for_writing_def Let_def bind_eq_Inr stem_def [symmetric]
  apply (elim exE conjE)
  apply (clarsimp split: option.splits)
  done

lemma unknown_tip_type_fails:
  assumes "files e filepath = Some c" and "read_tip_type e c = Inr t"
    and "t \<notin> set recognized_tip_types"
  shows "isl (create_tip_rack_for_writing e filepath)"
proof (cases "create_tip_rack_for_writing e filepath")
  case (Inl a)
  then show ?thesis by simp
next
  case (Inr res)
  then obtain r d where "create_tip_rack_for_writing e filepath = Inr (r, d)"
    by (cases res) simp
  from tip_rack_success [OF this] assms show ?thesis
    by (auto simp add: read_file_Inr tip_table_None [symmetric])
qed

text \<open>
  Claim C7.  The tip type is the value of \<open>PropertyValue.6\<close> when that key is found, and
  the result of reading \<open>PropertyValue.4\<close> when it is not.  When the tip type so read is
  not one of the nine catalogue identifiers the call fails; a call that returns a
  descriptor has read one of the nine, and the descriptor carries its tip creator.
\<close>

theorem tip_type_fallback:
  "(lookup_string e ''PropertyValue.6'' c = Some t \<longrightarrow> read_tip_type e c = Inr t)
   \<and> (lookup_string e ''PropertyValue.6'' c = None \<longrightarrow>
        read_tip_type e c = find_string e ''PropertyValue.4'' c)
   \<and> (files e filepath = Some c \<and> read_tip_type e c = Inr t \<and> t \<notin> set recognized_tip_types
        \<longrightarrow> isl (create_tip_rack_for_writing e filepath))
   \<and> (files e filepath = Some c \<and> create_tip_rack_for_writing e filepath = Inr (r, d)
        \<longrightarrow> (\<exists>t'. read_tip_type e c = Inr t' \<and> t' \<in> set recognized_tip_types
                  \<and> tip_table t' = Some (t_make_tip (rack_items r))))"
proof (intro conjI impI)
  assume "lookup_string e ''PropertyValue.6'' c = Some t"
  then show "read_tip_type e c = Inr t"
    by (simp add: read_tip_type_def find_string_def)
next
  assume "lookup_string e ''PropertyValue.6'' c = None"
  then show "read_tip_type e c = find_string e ''PropertyValue.4'' c"
    by (simp add: read_tip_type_def find_string_def)
next
  assume "files e filepath = Some c \<and> read_tip_type e c = Inr t \<and> t \<notin> set recognized_tip_types"
  then show "isl (create_tip_rack_for_writing e filepath)"
    using unknown_tip_type_fails by blast
next
  assume a: "files e filepath = Some c \<and> create_tip_rack_for_writing e filepath = Inr (r, d)"
  then have "create_tip_rack_for_writing e filepath = Inr (r, d)" by simp
  from tip_rack_success [OF this] a
  obtain t' where t': "read_tip_type e c = Inr t'" "tip_table t' = Some (t_make_tip (rack_items r))"
    by (auto simp add: read_file_Inr)
  then have "t' \<in> set recognized_tip_types"
    using tip_table_None [of t'] by simp
  with t' show "\<exists>t'. read_tip_type e c = Inr t' \<and> t' \<in> set recognized_tip_types
                  \<and> tip_table t' = Some (t_make_tip (rack_items r))"
    by blast
qed

lemma example_tip_rack_parse:
  "create_tip_rack_for_writing example_env ''4mlTF_L.rck'' = Inr (example_tip_rack, ''24 tips'')"
  by code_simp

text \<open>
  The theorem at \<open>4mlTF_L.rck\<close>, which has no \<open>PropertyValue.6\<close> and a catalogue type under
  \<open>PropertyValue.4\<close>, and at \<open>odd.rck\<close>, whose \<open>PropertyValue.6\<close> is not in the catalogue.
\<close>

theorem tip_type_fallback_witness:
  "lookup_string example_env ''PropertyValue.6'' rack_rck = None
   \<and> read_tip_type example_env rack_rck = Inr ''MlStar4mlTipWithFilter''
   \<and> files example_env ''4mlTF_L.rck'' = Some rack_rck
   \<and> create_tip_rack_for_writing example_env ''4mlTF_L.rck'' = Inr (example_tip_rack, ''24 tips'')
   \<and> t_make_tip (rack_items example_tip_rack) = four_ml_tip_with_filter
   \<and> lookup_string example_env ''PropertyValue.6'' odd_rack_rck = Some ''SomeOtherTip''
   \<and> lookup_string example_env ''PropertyValue.4'' odd_rack_rck = Some ''MlStar4mlTipWithFilter''
   \<and> read_tip_type example_env odd_rack_rck = Inr ''SomeOtherTip''
   \<and> files example_env ''odd.rck'' = Some odd_rack_rck
   \<and> ''SomeOtherTip'' \<notin> set recognized_tip_types
   \<and> isl (create_tip_rack_for_writing example_env ''odd.rck'')"
proof -
  have a1: "lookup_string example_env ''PropertyValue.6'' rack_rck = None" by code_simp
  have a2: "find_string example_env ''PropertyValue.4'' rack_rck = Inr ''MlStar4mlTipWithFilter''"
    by code_simp
  have a3: "files example_env ''4mlTF_L.rck'' = Some rack_rck" by code_simp
  have a4: "t_make_tip (rack_items example_tip_rack) = four_ml_tip_with_filter" by code_simp
  have b1: "lookup_string example_env ''PropertyValue.6'' odd_rack_rck = Some ''SomeOtherTip''"
    by code_simp
  have b2: "lookup_string example_env ''PropertyValue.4'' odd_rack_rck
              = Some ''MlStar4mlTipWithFilter''" by code_simp
  have b3: "files example_env ''odd.rck'' = Some odd_rack_rck" by code_simp
  have b4: "''SomeOtherTip'' \<notin> set recognized_tip_types" by code_simp
  show ?thesis
    using tip_type_fallback [of example_env rack_rck "''MlStar4mlTipWithFilter''" "''4mlTF_L.rck''"
        example_tip_rack "''24 tips''"]
      tip_type_fallback [of example_env odd_rack_rck "''SomeOtherTip''" "''odd.rck''"
        example_tip_rack "''24 tips''"]
      a1 a2 a3 a4 b1 b2 b3 b4 example_tip_rack_parse
    by simp
qed


section \<open>The public entry points\<close>

text \<open>What a successful assembly of a carrier has used.\<close>

lemma carrier_success:
  assumes "assemble_carrier e klass filepath c locations st = Inr (k, d)"
  shows "\<exists>w h. site_width st = Some w \<and> site_height st = Some h
     \<and> carrier_sites k = create_homogeneous_carrier_sites locations w h
     \<and> carrier_model k = stem filepath \<and> carrier_name k = stem filepath
     \<and> carrier_class k = klass"
  using assms
  unfolding assemble_carrier_def Let_def bind_eq_Inr stem_def [symmetric] local_var_def
  apply (elim exE conjE)
  apply (clarsimp split: option.splits)
  done

text \<open>
  Claim C9.  Each public entry point returns the descriptor of its for-writing form with
  the name field replaced by the name of the caller, the description and the volume
  function dropped, and fails with the same exception when the for-writing form fails.
  Every other field is as the for-writing form built it; the model is still the one
  derived from the file name.
\<close>

theorem public_entry_points:
  "(create_plate_for_writing e filepath ctr_filepath = Inr (p, d, vol) \<longrightarrow>
      create_plate e filepath name ctr_filepath = Inr (p\<lparr>plate_name := name\<rparr>)
      \<and> plate_model (p\<lparr>plate_name := name\<rparr>) = stem filepath)
   \<and> (create_plate_for_writing e filepath ctr_filepath = Inl err \<longrightarrow>
        create_plate e filepath name ctr_filepath = Inl err)
   \<and> (create_tip_rack_for_writing e filepath = Inr (r, d) \<longrightarrow>
        create_tip_rack e filepath name = Inr (r\<lparr>rack_name := name\<rparr>)
        \<and> rack_cname (stem filepath) = Inr (rack_model (r\<lparr>rack_name := name\<rparr>)))
   \<and> (create_tip_rack_for_writing e filepath = Inl err \<longrightarrow>
        create_tip_rack e filepath name = Inl err)
   \<and> (create_plate_carrier_for_writing e filepath = Inr (k, d) \<longrightarrow>
        create_plate_carrier e filepath name = Inr (k\<lparr>carrier_name := name\<rparr>)
        \<and> carrier_model (k\<lparr>carrier_name := name\<rparr>) = stem filepath)
   \<and> (create_plate_carrier_for_writing e filepath = Inl err \<longrightarrow>
        create_plate_carrier e filepath name = Inl err)
   \<and> (create_tip_carrier_for_writing e filepath = Inr (k, d) \<longrightarrow>
        create_tip_carrier e filepath name = Inr (k\<lparr>carrier_name := name\<rparr>)
        \<and> carrier_model (k\<lparr>carrier_name := name\<rparr>) = stem filepath)
   \<and> (create_tip_carrier_for_writing e filepath = Inl err \<longrightarrow>
        create_tip_carrier e filepath name = Inl err)
   \<and> (create_flex_carrier_for_writing e filepath = Inr (k, d) \<longrightarrow>
        create_flex_carrier e filepath name = Inr (k\<lparr>carrier_name := name\<rparr>)
        \<and> carrier_model (k\<lparr>carrier_name := name\<rparr>) = stem filepath)
   \<and> (create_flex_carrier_for_writing e filepath = Inl err \<longrightarrow>
        create_flex_carrier e filepath name = Inl err)"
proof (intro conjI impI)
  assume a: "create_plate_for_writing e filepath ctr_filepath = Inr (p, d, vol)"
  then show "create_plate e filepath name ctr_filepath = Inr (p\<lparr>plate_name := name\<rparr>)"
    by (simp add: create_plate_def)
  from plate_success [OF a] show "plate_model (p\<lparr>plate_name := name\<rparr>) = stem filepath"
    by auto
next
  assume a: "create_tip_rack_for_writing e filepath = Inr (r, d)"
  then show "create_tip_rack e filepath name = Inr (r\<lparr>rack_name := name\<rparr>)"
    by (simp add: create_tip_rack_def)
  from tip_rack_success [OF a]
  show "rack_cname (stem filepath) = Inr (rack_model (r\<lparr>rack_name := name\<rparr>))"
    by auto
next
  assume a: "create_plate_carrier_for_writing e filepath = Inr (k, d)"
  then show "create_plate_carrier e filepath name = Inr (k\<lparr>carrier_name := name\<rparr>)"
    by (simp add: create_plate_carrier_def)
  from a show "carrier_model (k\<lparr>carrier_name := name\<rparr>) = stem filepath"
    by (auto simp add: create_plate_carrier_for_writing_def bind_eq_Inr dest: carrier_success)
next
  assume a: "create_tip_carrier_for_writing e filepath = Inr (k, d)"
  then show "create_tip_carrier e filepath name = Inr (k\<lparr>carrier_name := name\<rparr>)"
    by (simp add: create_tip_carrier_def)
  from a show "carrier_model (k\<lparr>carrier_name := name\<rparr>) = stem filepath"
    by (auto simp add: create_tip_carrier_for_writing_def bind_eq_Inr dest: carrier_success)
next
  assume a: "create_flex_carrier_for_writing e filepath = Inr (k, d)"
  then show "create_flex_carrier e filepath name = Inr (k\<lparr>carrier_name := name\<rparr>)"
    by (simp add: create_flex_carrier_def)
  from a show "carrier_model (k\<lparr>carrier_name := name\<rparr>) = stem filepath"
    by (auto simp add: create_flex_carrier_for_writing_def bind_eq_Inr dest: carrier_success)
qed (simp_all add: create_plate_def create_tip_rack_def create_plate_carrier_def
       create_tip_carrier_def create_flex_carrier_def)

lemma example_flex_carrier_parse:
  "create_flex_carrier_for_writing example_env ''MFX_CAR_L5_zero.rck''
     = Inr (example_flex_carrier, ''flex carrier'')"
  by code_simp

theorem public_entry_points_witness:
  "create_plate_for_writing example_env ''Cos_96_ProtCryst.rck'' None
     = Inr (example_plate, ''Cos_96_ProtCryst'', example_volume_text)
   \<and> create_plate example_env ''Cos_96_ProtCryst.rck'' ''plate_1'' None
       = Inr (example_plate\<lparr>plate_name := ''plate_1''\<rparr>)
   \<and> plate_model (example_plate\<lparr>plate_name := ''plate_1''\<rparr>) = ''Cos_96_ProtCryst''
   \<and> create_flex_carrier_for_writing example_env ''MFX_CAR_L5_zero.rck''
       = Inr (example_flex_carrier, ''flex carrier'')
   \<and> create_flex_carrier example_env ''MFX_CAR_L5_zero.rck'' ''carrier_1''
       = Inr (example_flex_carrier\<lparr>carrier_name := ''carrier_1''\<rparr>)
   \<and> carrier_model (example_flex_carrier\<lparr>carrier_name := ''carrier_1''\<rparr>) = ''MFX_CAR_L5_zero''
   \<and> create_tip_rack_for_writing example_env ''odd.rck'' = Inl (KeyError ''SomeOtherTip'')
   \<and> create_tip_rack example_env ''odd.rck'' ''rack_1'' = Inl (KeyError ''SomeOtherTip'')"
proof -
  have s1: "stem ''Cos_96_ProtCryst.rck'' = ''Cos_96_ProtCryst''" by code_simp
  have s2: "stem ''MFX_CAR_L5_zero.rck'' = ''MFX_CAR_L5_zero''" by code_simp
  have f: "create_tip_rack_for_writing example_env ''odd.rck'' = Inl (KeyError ''SomeOtherTip'')"
    by code_simp
  show ?thesis
    using public_entry_points [of example_env "''Cos_96_ProtCryst.rck''" None example_plate
        "''Cos_96_ProtCryst''" example_volume_text "''plate_1''"]
      public_entry_points [of example_env "''MFX_CAR_L5_zero.rck''" _ _ "''flex carrier''" _
        "''carrier_1''" _ _ example_flex_carrier]
      public_entry_points [of example_env "''odd.rck''" _ _ _ _ "''rack_1''" "KeyError ''SomeOtherTip''"]
      example_plate_parse example_flex_carrier_parse s1 s2 f
    by simp
qed


section \<open>Carriers\<close>

text \<open>The three carrier parsers have one shape.\<close>

lemma carrier_parser_unfold:
  "carrier_parser klass e filepath =
     bind (read_file e filepath) (\<lambda>c.
     bind (read_site_count e c (count_marker klass)) (\<lambda>n.
     bind (read_sites e c [1..n] initial_sites) (\<lambda>st.
     bind (final_locations klass e c (sort_key coord_y (sites st))) (\<lambda>locations.
     assemble_carrier e klass filepath c locations st))))"
  by (cases klass)
     (simp_all add: carrier_parser_def count_marker_def final_locations_def
        create_plate_carrier_for_writing_def create_tip_carrier_for_writing_def
        create_flex_carrier_for_writing_def)

lemma read_sites_append:
  "read_sites e c (xs @ ys) st = bind (read_sites e c xs st) (read_sites e c ys)"
  by (induction xs arbitrary: st) (auto split: sum.splits)

lemma read_sites_single:
  assumes "read_sites e c [n] st = Inr st'"
  shows "\<exists>w h. lookup_float e (site_key n ''Dx'') c = Inr w
           \<and> lookup_float e (site_key n ''Dy'') c = Inr h
           \<and> site_width st' = Some w \<and> site_height st' = Some h"
  using assms by (auto simp add: site_key_def find_float_Inr split: sum.splits)

text \<open>
  A successful parse has read at least one site, and the width and height of the last
  site are those of every site of the carrier.
\<close>

lemma last_site_sizes:
  assumes ok: "carrier_parser klass e filepath = Inr (k, d)"
    and c: "files e filepath = Some c"
    and n: "read_site_count e c (count_marker klass) = Inr n"
  shows "1 \<le> n \<and> (\<exists>w h. lookup_float e (site_key n ''Dx'') c = Inr w
           \<and> lookup_float e (site_key n ''Dy'') c = Inr h
           \<and> (\<forall>s \<in> set (carrier_sites k). site_size_x s = w \<and> site_size_y s = h))"
proof -
  from c have rf: "read_file e filepath = Inr c" by (simp add: read_file_Inr)
  from ok obtain st locations where
    st: "read_sites e c [1..n] initial_sites = Inr st" and
    asm: "assemble_carrier e klass filepath c locations st = Inr (k, d)"
    unfolding carrier_parser_unfold rf n bind_Inr bind_eq_Inr by blast
  from carrier_success [OF asm] obtain w h where
    wh: "site_width st = Some w" "site_height st = Some h" and
    ks: "carrier_sites k = create_homogeneous_carrier_sites locations w h"
    by blast
  have n1: "1 \<le> n"
  proof (rule ccontr)
    assume "\<not> 1 \<le> n"
    then have "[1..n] = []" by simp
    with st have "st = initial_sites" by simp
    with wh show False by (simp add: initial_sites_def)
  qed
  then have "[1..n] = [1..n - 1] @ [n]" by (simp add: upto_rec2)
  with st have "bind (read_sites e c [1..n - 1] initial_sites) (read_sites e c [n]) = Inr st"
    by (simp only: read_sites_append)
  then obtain st1 where "read_sites e c [n] st1 = Inr st"
    unfolding bind_eq_Inr by blast
  from read_sites_single [OF this] wh
  have "lookup_float e (site_key n ''Dx'') c = Inr w"
    "lookup_float e (site_key n ''Dy'') c = Inr h" by auto
  with n1 ks show ?thesis
    by (auto simp add: create_homogeneous_carrier_sites_def)
qed

lemma find_float_agree:
  "lookup_float e' key c = lookup_float e key c \<Longrightarrow> find_float e' key c = find_float e key c"
  by (simp add: find_float_def)

lemma find_float_present:
  "\<not> isl (lookup_float e key c) \<Longrightarrow> \<exists>v. find_float e key c = Inr v"
  by (cases "lookup_float e key c") (simp_all add: find_float_def)

text \<open>One iteration of the loop, in terms of the keys it reads.\<close>

lemma read_sites_Cons:
  "read_sites e c (i # rest) st =
     bind (find_float e (site_key i ''X'') c) (\<lambda>sx.
     bind (find_float e (site_key i ''Y'') c) (\<lambda>sy.
     bind (find_float e (site_key i ''Z'') c) (\<lambda>sz.
     bind (find_float e (site_key i ''Dx'') c) (\<lambda>w.
     bind (find_float e (site_key i ''Dy'') c) (\<lambda>h.
       read_sites e c rest
         \<lparr>sites = sites st @ [Coordinate sx sy sz],
          site_width = Some w, site_height = Some h\<rparr>)))))"
  by (simp add: site_key_def bind_def split: sum.splits)

lemma agree_at_find:
  assumes "agree_at e e' c i"
  shows "find_float e' (site_key i ''X'') c = find_float e (site_key i ''X'') c"
    and "find_float e' (site_key i ''Y'') c = find_float e (site_key i ''Y'') c"
    and "find_float e' (site_key i ''Z'') c = find_float e (site_key i ''Z'') c"
    and "\<exists>w. find_float e (site_key i ''Dx'') c = Inr w"
    and "\<exists>h. find_float e (site_key i ''Dy'') c = Inr h"
    and "\<exists>w. find_float e' (site_key i ''Dx'') c = Inr w"
    and "\<exists>h. find_float e' (site_key i ''Dy'') c = Inr h"
proof -
  from assms show "find_float e' (site_key i ''X'') c = find_float e (site_key i ''X'') c"
    and "find_float e' (site_key i ''Y'') c = find_float e (site_key i ''Y'') c"
    and "find_float e' (site_key i ''Z'') c = find_float e (site_key i ''Z'') c"
    by (simp_all add: agree_at_def find_float_def)
  from assms show "\<exists>w. find_float e (site_key i ''Dx'') c = Inr w"
    and "\<exists>h. find_float e (site_key i ''Dy'') c = Inr h"
    and "\<exists>w. find_float e' (site_key i ''Dx'') c = Inr w"
    and "\<exists>h. find_float e' (site_key i ''Dy'') c = Inr h"
    unfolding agree_at_def by (blast intro: find_float_present)+
qed

text \<open>
  Two environments that agree at the sites of a list read the same sites, or fail with
  the same exception; the widths and heights read on the way may differ.
\<close>

lemma read_sites_step_agree:
  assumes a: "agree_at e e' c i"
    and IH: "\<And>s s'. sites s = sites s' \<Longrightarrow>
       map_sum id sites (read_sites e' c rest s') = map_sum id sites (read_sites e c rest s)"
    and st: "sites st = sites st'"
  shows "map_sum id sites (read_sites e' c (i # rest) st')
       = map_sum id sites (read_sites e c (i # rest) st)"
proof -
  note xyz = agree_at_find(1-3) [OF a]
  from agree_at_find(4-7) [OF a] obtain w h w' h' where
    wh: "find_float e (site_key i ''Dx'') c = Inr w"
      "find_float e (site_key i ''Dy'') c = Inr h"
      "find_float e' (site_key i ''Dx'') c = Inr w'"
      "find_float e' (site_key i ''Dy'') c = Inr h'"
    by blast
  show ?thesis
  proof (cases "find_float e (site_key i ''X'') c")
    case (Inl err)
    then show ?thesis by (simp only: read_sites_Cons xyz bind_Inl)
  next
    case sx: (Inr sx)
    show ?thesis
    proof (cases "find_float e (site_key i ''Y'') c")
      case (Inl err)
      then show ?thesis by (simp only: read_sites_Cons xyz sx bind_Inl bind_Inr)
    next
      case sy: (Inr sy)
      show ?thesis
      proof (cases "find_float e (site_key i ''Z'') c")
        case (Inl err)
        then show ?thesis by (simp only: read_sites_Cons xyz sx sy bind_Inl bind_Inr)
      next
        case sz: (Inr sz)
        have "sites \<lparr>sites = sites st @ [Coordinate sx sy sz], site_width = Some w,
                     site_height = Some h\<rparr>
            = sites \<lparr>sites = sites st' @ [Coordinate sx sy sz], site_width = Some w',
                     site_height = Some h'\<rparr>"
          using st by simp
        from IH [OF this] show ?thesis
          by (simp only: read_sites_Cons xyz sx sy sz wh bind_Inr)
      qed
    qed
  qed
qed

lemma read_sites_agree:
  assumes "\<forall>i \<in> set idx. agree_at e e' c i" and "sites st = sites st'"
  shows "map_sum id sites (read_sites e' c idx st') = map_sum id sites (read_sites e c idx st)"
  using assms
proof (induction idx arbitrary: st st')
  case Nil
  then show ?case by simp
next
  case (Cons i idx)
  from Cons.prems(1) have a: "agree_at e e' c i" and rest: "\<forall>i \<in> set idx. agree_at e e' c i"
    by simp_all
  show ?case
    by (rule read_sites_step_agree [OF a Cons.IH [OF rest] Cons.prems(2)])
qed

lemma read_sites_last_agree:
  assumes "lookup_float e' (site_key n ''X'') c = lookup_float e (site_key n ''X'') c"
    and "lookup_float e' (site_key n ''Y'') c = lookup_float e (site_key n ''Y'') c"
    and "lookup_float e' (site_key n ''Z'') c = lookup_float e (site_key n ''Z'') c"
    and "lookup_float e' (site_key n ''Dx'') c = lookup_float e (site_key n ''Dx'') c"
    and "lookup_float e' (site_key n ''Dy'') c = lookup_float e (site_key n ''Dy'') c"
    and "sites st = sites st'"
  shows "read_sites e' c [n] st' = read_sites e c [n] st"
  unfolding read_sites_Cons find_float_agree [OF assms(1)] find_float_agree [OF assms(2)]
    find_float_agree [OF assms(3)] find_float_agree [OF assms(4)] find_float_agree [OF assms(5)]
    assms(6) read_sites.simps(1)
  by (rule refl)

lemma used_float_keys_mem:
  "i \<in> set [1..n] \<Longrightarrow> site_key i ''X'' \<in> set (used_float_keys n)"
  "i \<in> set [1..n] \<Longrightarrow> site_key i ''Y'' \<in> set (used_float_keys n)"
  "i \<in> set [1..n] \<Longrightarrow> site_key i ''Z'' \<in> set (used_float_keys n)"
  "site_key n ''Dx'' \<in> set (used_float_keys n)"
  "site_key n ''Dy'' \<in> set (used_float_keys n)"
  "''Dim.Dx'' \<in> set (used_float_keys n)"
  "''Dim.Dy'' \<in> set (used_float_keys n)"
  "''Dim.Dz'' \<in> set (used_float_keys n)"
  unfolding used_float_keys_def by auto

lemma unused_size_keys_mem:
  "i \<in> set [1..n - 1] \<Longrightarrow> site_key i ''Dx'' \<in> set (unused_size_keys n)"
  "i \<in> set [1..n - 1] \<Longrightarrow> site_key i ''Dy'' \<in> set (unused_size_keys n)"
  unfolding unused_size_keys_def by auto

lemma read_sites_same:
  assumes "same_but_unused_sizes e e' c n"
  shows "read_sites e' c [1..n] initial_sites = read_sites e c [1..n] initial_sites"
proof (cases "1 \<le> n")
  case False
  then have "[1..n] = []" by simp
  then show ?thesis by simp
next
  case True
  then have split: "[1..n] = [1..n - 1] @ [n]" by (simp add: upto_rec2)
  from assms have
    used: "\<And>key. key \<in> set (used_float_keys n)
             \<Longrightarrow> lookup_float e' key c = lookup_float e key c" and
    unused: "\<And>key. key \<in> set (unused_size_keys n)
             \<Longrightarrow> \<not> isl (lookup_float e key c) \<and> \<not> isl (lookup_float e' key c)"
    unfolding same_but_unused_sizes_def by blast+
  have pre: "\<forall>i \<in> set [1..n - 1]. agree_at e e' c i"
  proof
    fix i assume i: "i \<in> set [1..n - 1]"
    then have i': "i \<in> set [1..n]" by simp
    show "agree_at e e' c i"
      unfolding agree_at_def
      using used [OF used_float_keys_mem(1) [OF i']] used [OF used_float_keys_mem(2) [OF i']]
        used [OF used_float_keys_mem(3) [OF i']] unused [OF unused_size_keys_mem(1) [OF i]]
        unused [OF unused_size_keys_mem(2) [OF i]]
      by blast
  qed
  have n_in: "n \<in> set [1..n]" using True by simp
  have last: "read_sites e' c [n] st' = read_sites e c [n] st" if "sites st = sites st'" for st st'
    by (rule read_sites_last_agree
          [OF used [OF used_float_keys_mem(1) [OF n_in]] used [OF used_float_keys_mem(2) [OF n_in]]
            used [OF used_float_keys_mem(3) [OF n_in]] used [OF used_float_keys_mem(4)]
            used [OF used_float_keys_mem(5)] that])
  have proj: "map_sum id sites (read_sites e' c [1..n - 1] initial_sites)
            = map_sum id sites (read_sites e c [1..n - 1] initial_sites)"
    by (rule read_sites_agree [OF pre refl])
  show ?thesis
  proof (cases "read_sites e c [1..n - 1] initial_sites")
    case (Inl err)
    with proj have "read_sites e' c [1..n - 1] initial_sites = Inl err"
      by (cases "read_sites e' c [1..n - 1] initial_sites") simp_all
    with Inl show ?thesis
      by (simp only: split read_sites_append bind_Inl)
  next
    case (Inr s)
    with proj obtain s' where s': "read_sites e' c [1..n - 1] initial_sites = Inr s'"
      and eq: "sites s = sites s'"
      by (cases "read_sites e' c [1..n - 1] initial_sites") simp_all
    from last [OF eq] show ?thesis
      by (simp only: split read_sites_append Inr s' bind_Inr)
  qed
qed

lemma filter_visible_same:
  "lookup_int e' = lookup_int e \<Longrightarrow> filter_visible e' c i xs = filter_visible e c i xs"
  by (induction xs arbitrary: i) (simp_all add: find_int_def split: sum.splits)

lemma carrier_parser_same:
  assumes c: "files e filepath = Some c"
    and n: "read_site_count e c (count_marker klass) = Inr n"
    and same: "same_but_unused_sizes e e' c n"
  shows "carrier_parser klass e' filepath = carrier_parser klass e filepath"
proof -
  from same have eqs: "files e' = files e" "lookup_int e' = lookup_int e"
    "lookup_string e' = lookup_string e" "parse_int e' = parse_int e"
    and used: "\<And>key. key \<in> set (used_float_keys n)
             \<Longrightarrow> lookup_float e' key c = lookup_float e key c"
    unfolding same_but_unused_sizes_def by blast+
  note dims = used [OF used_float_keys_mem(6)] used [OF used_float_keys_mem(7)]
    used [OF used_float_keys_mem(8)]
  have rf: "read_file e' filepath = Inr c" "read_file e filepath = Inr c"
    using c eqs by (simp_all add: read_file_Inr)
  have "read_site_count e' c (count_marker klass) = read_site_count e c (count_marker klass)"
    using eqs by (simp add: read_site_count_def split: list.splits)
  with n have cnt: "read_site_count e' c (count_marker klass) = Inr n"
    by simp
  have fin: "\<And>xs. final_locations klass e' c xs = final_locations klass e c xs"
    by (simp add: final_locations_def filter_visible_same [OF eqs(2)] split: carrier_class.splits)
  have asm: "\<And>locs st. assemble_carrier e' klass filepath c locs st
                 = assemble_carrier e klass filepath c locs st"
    using eqs dims by (simp add: assemble_carrier_def find_float_def find_string_def)
  show ?thesis
    by (simp only: carrier_parser_unfold rf cnt n bind_Inr read_sites_same [OF same] fin asm)
qed

text \<open>
  Claim C10.  For each of the three carrier parsers and every file with the site count
  \<open>n\<close>: a parse that succeeds has \<open>n \<ge> 1\<close>, and every site of the carrier it returns has the
  width \<open>Site.n.Dx\<close> and the height \<open>Site.n.Dy\<close> of the last source site.  The widths and
  heights of the sites \<open>1, \<dots>, n - 1\<close> are read, but their values have no effect: in an
  environment that differs only in those values the parser returns the same result.
\<close>

theorem last_site_size_for_all_sites:
  assumes "files e filepath = Some c"
    and "read_site_count e c (count_marker klass) = Inr n"
  shows "(carrier_parser klass e filepath = Inr (k, d) \<longrightarrow>
            1 \<le> n \<and> (\<exists>w h. lookup_float e (site_key n ''Dx'') c = Inr w
               \<and> lookup_float e (site_key n ''Dy'') c = Inr h
               \<and> (\<forall>s \<in> set (carrier_sites k). site_size_x s = w \<and> site_size_y s = h)))
       \<and> (same_but_unused_sizes e e' c n \<longrightarrow>
            carrier_parser klass e' filepath = carrier_parser klass e filepath)"
  using last_site_sizes [OF _ assms] carrier_parser_same [OF assms] by blast

lemma example_plate_carrier_parse:
  "carrier_parser PlateCarrier example_env ''PLT_CAR_L5AC_A00.rck''
     = Inr (example_carrier PlateCarrier ''PLT_CAR_L5AC_A00'', ''carrier'')"
  by code_simp

lemma example_same_but_unused_sizes:
  "same_but_unused_sizes example_env example_env_resized carrier_rck 2"
proof -
  have "\<forall>key \<in> set (used_float_keys 2).
          lookup_float example_env_resized key carrier_rck
            = lookup_float example_env key carrier_rck"
    by code_simp
  moreover have "\<forall>key \<in> set (unused_size_keys 2).
          \<not> isl (lookup_float example_env key carrier_rck)
          \<and> \<not> isl (lookup_float example_env_resized key carrier_rck)"
    by code_simp
  ultimately show ?thesis
    by (simp add: same_but_unused_sizes_def example_env_resized_def)
qed

text \<open>
  The theorem at the example plate carrier, whose site 1 is 127 by 86 and whose site 2 is
  100 by 50, and at the environment in which site 1 reads as 1 by 2.
\<close>

theorem last_site_size_for_all_sites_witness:
  "files example_env ''PLT_CAR_L5AC_A00.rck'' = Some carrier_rck
   \<and> read_site_count example_env carrier_rck (count_marker PlateCarrier) = Inr 2
   \<and> carrier_parser PlateCarrier example_env ''PLT_CAR_L5AC_A00.rck''
       = Inr (example_carrier PlateCarrier ''PLT_CAR_L5AC_A00'', ''carrier'')
   \<and> lookup_float example_env (site_key 1 ''Dx'') carrier_rck = Inr 127
   \<and> lookup_float example_env (site_key 1 ''Dy'') carrier_rck = Inr 86
   \<and> lookup_float example_env (site_key 2 ''Dx'') carrier_rck = Inr 100
   \<and> lookup_float example_env (site_key 2 ''Dy'') carrier_rck = Inr 50
   \<and> map site_size_x (carrier_sites (example_carrier PlateCarrier ''PLT_CAR_L5AC_A00''))
       = [100, 100]
   \<and> map site_size_y (carrier_sites (example_carrier PlateCarrier ''PLT_CAR_L5AC_A00''))
       = [50, 50]
   \<and> same_but_unused_sizes example_env example_env_resized carrier_rck 2
   \<and> lookup_float example_env_resized (site_key 1 ''Dx'') carrier_rck = Inr 1
   \<and> lookup_float example_env_resized (site_key 1 ''Dy'') carrier_rck = Inr 2
   \<and> carrier_parser PlateCarrier example_env_resized ''PLT_CAR_L5AC_A00.rck''
       = carrier_parser PlateCarrier example_env ''PLT_CAR_L5AC_A00.rck''"
proof -
  have h1: "files example_env ''PLT_CAR_L5AC_A00.rck'' = Some carrier_rck" by code_simp
  have h2: "read_site_count example_env carrier_rck (count_marker PlateCarrier) = Inr 2"
    by code_simp
  have v: "lookup_float example_env (site_key 1 ''Dx'') carrier_rck = Inr 127"
    "lookup_float example_env (site_key 1 ''Dy'') carrier_rck = Inr 86"
    "lookup_float example_env (site_key 2 ''Dx'') carrier_rck = Inr 100"
    "lookup_float example_env (site_key 2 ''Dy'') carrier_rck = Inr 50"
    "lookup_float example_env_resized (site_key 1 ''Dx'') carrier_rck = Inr 1"
    "lookup_float example_env_resized (site_key 1 ''Dy'') carrier_rck = Inr 2"
    by code_simp+
  show ?thesis
    using last_site_size_for_all_sites [OF h1 h2,
        of "example_carrier PlateCarrier ''PLT_CAR_L5AC_A00''" "''carrier''" example_env_resized]
      h1 h2 v example_plate_carrier_parse example_same_but_unused_sizes
    by (simp add: example_carrier_def)
qed

text \<open>
  The visibility filter keeps a sorted list sorted, and it keeps the element at position
  \<open>j\<close> (counted from \<open>i\<close>) when \<open>Site.j.Visible\<close> is 1.
\<close>

lemma filter_visible_sorted:
  "sorted (map f xs) \<Longrightarrow> filter_visible e c i xs = Inr ys
     \<Longrightarrow> sorted (map f ys) \<and> set ys \<subseteq> set xs"
proof (induction xs arbitrary: i ys)
  case Nil
  then show ?case by simp
next
  case (Cons x xs)
  from Cons.prems(2) obtain visible kept where
    vis: "lookup_int e (site_key i ''Visible'') c = Inr visible" and
    kept: "filter_visible e c (i + 1) xs = Inr kept" and
    ys: "ys = (if visible = 1 then x # kept else kept)"
    by (auto simp add: find_int_Inr site_key_def split: sum.splits)
  from Cons.prems(1) have "sorted (map f xs)" by simp
  from Cons.IH [OF this kept] have IH: "sorted (map f kept)" "set kept \<subseteq> set xs" by simp_all
  with Cons.prems(1) ys show ?case by auto
qed

lemma filter_visible_positions:
  "filter_visible e c i xs = Inr ys \<Longrightarrow>
     ys = map fst (filter (\<lambda>(s, j). lookup_int e (site_key j ''Visible'') c = Inr 1)
                     (zip xs [i..i + int (length xs) - 1]))"
proof (induction xs arbitrary: i ys)
  case Nil
  then show ?case by simp
next
  case (Cons x xs)
  from Cons.prems obtain visible kept where
    vis: "lookup_int e (site_key i ''Visible'') c = Inr visible" and
    kept: "filter_visible e c (i + 1) xs = Inr kept" and
    ys: "ys = (if visible = 1 then x # kept else kept)"
    by (auto simp add: find_int_Inr site_key_def split: sum.splits)
  have idx: "[i..i + int (length (x # xs)) - 1] = i # [i + 1..i + 1 + int (length xs) - 1]"
    by (simp add: upto_rec1)
  from Cons.IH [OF kept] vis ys show ?case
    unfolding idx by auto
qed

lemma site_locations:
  "map site_location (create_homogeneous_carrier_sites locations w h) = locations"
  by (simp add: create_homogeneous_carrier_sites_def comp_def)

text \<open>
  The sites of every carrier are sorted by their y-coordinate; those of a plate or tip
  carrier are the stable sort of the sites read.
\<close>

lemma carrier_sites_sorted:
  assumes "carrier_parser klass e filepath = Inr (k, d)"
  shows "sorted (map coord_y (map site_location (carrier_sites k)))"
proof -
  from assms obtain c st locations where
    fin: "final_locations klass e c (sort_key coord_y (sites st)) = Inr locations" and
    asm: "assemble_carrier e klass filepath c locations st = Inr (k, d)"
    unfolding carrier_parser_unfold bind_eq_Inr by blast
  from carrier_success [OF asm] have loc: "map site_location (carrier_sites k) = locations"
    by (auto simp add: site_locations)
  have srt: "sorted (map coord_y (sort_key coord_y (sites st)))"
    by (rule sorted_sort_key)
  have "sorted (map coord_y locations)"
  proof (cases klass)
    case MFXCarrier
    with fin have "filter_visible e c 0 (sort_key coord_y (sites st)) = Inr locations"
      by (simp add: final_locations_def)
    from filter_visible_sorted [OF srt this] show ?thesis by simp
  qed (use fin srt in \<open>simp_all add: final_locations_def\<close>)
  with loc show ?thesis by simp
qed

lemma unfiltered_carrier_sites:
  assumes "carrier_parser klass e filepath = Inr (k, d)" and "klass \<noteq> MFXCarrier"
    and "files e filepath = Some c"
    and "read_site_count e c (count_marker klass) = Inr n"
  shows "\<exists>st. read_sites e c [1..n] initial_sites = Inr st
     \<and> map site_location (carrier_sites k) = sort_key coord_y (sites st)"
proof -
  from assms(3) have rf: "read_file e filepath = Inr c" by (simp add: read_file_Inr)
  from assms(1) obtain st locations where
    st: "read_sites e c [1..n] initial_sites = Inr st" and
    fin: "final_locations klass e c (sort_key coord_y (sites st)) = Inr locations" and
    asm: "assemble_carrier e klass filepath c locations st = Inr (k, d)"
    unfolding carrier_parser_unfold rf assms(4) bind_Inr bind_eq_Inr by blast
  from carrier_success [OF asm] have "map site_location (carrier_sites k) = locations"
    by (auto simp add: site_locations)
  moreover from fin assms(2) have "locations = sort_key coord_y (sites st)"
    by (cases klass) (simp_all add: final_locations_def)
  ultimately show ?thesis using st by blast
qed

text \<open>
  Claim C2 does not hold of the code.  The visibility filter of the multi-function parser
  looks up \<open>Site.i.Visible\<close> with \<open>i\<close> the position in the sorted list, counted from 0,
  where the sites were read with the source indices 1 to \<open>count\<close>.  In \<open>MFX_CAR_L5_base.rck\<close>
  both sites are visible, and the parse fails because there is no key \<open>Site.0.Visible\<close>.
  In \<open>MFX_CAR_L5_zero.rck\<close>, which has that key, site 1 (y = 1) is not visible and site 2
  (y = 5) is; the carrier returned holds site 1 and not site 2.
\<close>

theorem visible_filter_by_sorted_position:
  "lookup_int example_env ''Site.1.Visible'' flex_rck = Inr 1
   \<and> lookup_int example_env ''Site.2.Visible'' flex_rck = Inr 1
   \<and> create_flex_carrier_for_writing example_env ''MFX_CAR_L5_base.rck''
       = Inl (ExtractError KeyNotFound ''Site.0.Visible'')
   \<and> lookup_int example_env ''Site.0.Visible'' flex0_rck = Inr 1
   \<and> lookup_int example_env ''Site.1.Visible'' flex0_rck = Inr 0
   \<and> lookup_int example_env ''Site.2.Visible'' flex0_rck = Inr 1
   \<and> lookup_float example_env ''Site.1.Y'' flex0_rck = Inr 1
   \<and> lookup_float example_env ''Site.2.Y'' flex0_rck = Inr 5
   \<and> create_flex_carrier_for_writing example_env ''MFX_CAR_L5_zero.rck''
       = Inr (example_flex_carrier, ''flex carrier'')
   \<and> map site_location (carrier_sites example_flex_carrier) = [Coordinate 4 1 2]"
  by code_simp

end
